theory Spec2Isabelle
  imports Main "HOL-Library.AList"
begin

section \<open>Python values, dictionaries and exceptions\<close>

text \<open>
  The functions of \<^verbatim>\<open>blockstack_client/actions.py\<close> exchange Python dictionaries:
  a result is a dictionary, an error is a dictionary with the key \<^verbatim>\<open>'error'\<close>
  (and sometimes \<^verbatim>\<open>'errno'\<close>), and the parsed command line is a namespace of
  attributes. A dictionary is an association list read with \<open>map_of\<close>; a Python 2
  \<^verbatim>\<open>str\<close> is a byte string, that is a \<open>string\<close>.
\<close>

datatype pyval =
    PNone
  | PBool bool
  | PInt int
  | PStr string
  | PList "pyval list"
  | PDict "(string \<times> pyval) list"

type_synonym pydict = "(string \<times> pyval) list"

datatype pyexc =
    TypeError string
  | AttributeError string
  | UnboundLocalError string
  | KeyError string
  | AssertionError string

text \<open>The values of the \<^verbatim>\<open>errno\<close> module that the code and the spec use.\<close>

definition EPERM :: int where "EPERM = 1"
definition ENOENT :: int where "ENOENT = 2"
definition EEXIST :: int where "EEXIST = 17"
definition ENOTDIR :: int where "ENOTDIR = 20"
definition EISDIR :: int where "EISDIR = 21"
definition EINVAL :: int where "EINVAL = 22"
definition ENOTEMPTY :: int where "ENOTEMPTY = 39"

text \<open>\<^verbatim>\<open>k in d\<close>, \<^verbatim>\<open>d[k] = v\<close> and \<^verbatim>\<open>d[k]\<close> (which raises KeyError).\<close>

definition has_key :: "pydict \<Rightarrow> string \<Rightarrow> bool" where
  "has_key d k = (map_of d k \<noteq> None)"

definition set_item :: "pydict \<Rightarrow> string \<Rightarrow> pyval \<Rightarrow> pydict" where
  "set_item d k v = AList.update k v d"

definition get_item :: "pydict \<Rightarrow> string \<Rightarrow> pyexc + pyval" where
  "get_item d k = (case map_of d k of None \<Rightarrow> Inl (KeyError k) | Some v \<Rightarrow> Inr v)"

text \<open>\<^verbatim>\<open>v[k]\<close> on a value that need not be a dictionary.\<close>

fun subscript :: "pyval \<Rightarrow> string \<Rightarrow> pyexc + pyval" where
  "subscript (PDict d) k = get_item d k"
| "subscript PNone k = Inl (TypeError ''NoneType'')"
| "subscript (PBool b) k = Inl (TypeError ''bool'')"
| "subscript (PInt i) k = Inl (TypeError ''int'')"
| "subscript (PStr s) k = Inl (TypeError ''str'')"
| "subscript (PList l) k = Inl (TypeError ''list'')"

fun truthy :: "pyval \<Rightarrow> bool" where
  "truthy PNone = False"
| "truthy (PBool b) = b"
| "truthy (PInt i) = (i \<noteq> 0)"
| "truthy (PStr s) = (s \<noteq> [])"
| "truthy (PList l) = (l \<noteq> [])"
| "truthy (PDict d) = (d \<noteq> [])"

text \<open>
  \<^verbatim>\<open>str(v)\<close>. Only strings, \<^verbatim>\<open>None\<close>, booleans and integers are printed as Python
  prints them; the text of a list or a dictionary is abbreviated, since only error messages
  contain it.
\<close>

fun digits :: "nat \<Rightarrow> string" where
  "digits n = (if n < 10 then [char_of (48 + n)]
               else digits (n div 10) @ [char_of (48 + n mod 10)])"

fun pystr :: "pyval \<Rightarrow> string" where
  "pystr PNone = ''None''"
| "pystr (PBool b) = (if b then ''True'' else ''False'')"
| "pystr (PInt i) = (if i < 0 then CHR ''-'' # digits (nat (- i)) else digits (nat i))"
| "pystr (PStr s) = s"
| "pystr (PList l) = ''[...]''"
| "pystr (PDict d) = ''{...}''"

text \<open>\<^verbatim>\<open>s.lower()\<close> and \<^verbatim>\<open>s.split(',')\<close> on byte strings.\<close>

definition lower_char :: "char \<Rightarrow> char" where
  "lower_char c = (if (65::nat) \<le> of_char c \<and> of_char c \<le> (90::nat)
                   then char_of (of_char c + (32::nat)) else c)"

definition lower :: "string \<Rightarrow> string" where
  "lower s = map lower_char s"

fun split_on :: "char \<Rightarrow> string \<Rightarrow> string list" where
  "split_on sep [] = [[]]"
| "split_on sep (c # cs) =
     (if c = sep then [] # split_on sep cs
      else (case split_on sep cs of
              [] \<Rightarrow> [[c]]
            | w # ws \<Rightarrow> (c # w) # ws))"

text \<open>The method calls \<^verbatim>\<open>v.lower()\<close> and \<^verbatim>\<open>v.split(',')\<close> on any value.\<close>

fun py_lower :: "pyval \<Rightarrow> pyexc + string" where
  "py_lower (PStr s) = Inr (lower s)"
| "py_lower v = Inl (AttributeError ''lower'')"

fun py_split :: "pyval \<Rightarrow> pyexc + string list" where
  "py_split (PStr s) = Inr (split_on CHR '','' s)"
| "py_split v = Inl (AttributeError ''split'')"

subsection \<open>The argument namespace\<close>

text \<open>
  \<^verbatim>\<open>args\<close> is the namespace of the parsed command line: \<^verbatim>\<open>hasattr(args, k)\<close> is
  \<open>has_key args k\<close>, and \<^verbatim>\<open>args.k\<close> raises AttributeError when the attribute is absent.
\<close>

definition getattr :: "pydict \<Rightarrow> string \<Rightarrow> pyexc + pyval" where
  "getattr args k = (case map_of args k of None \<Rightarrow> Inl (AttributeError k) | Some v \<Rightarrow> Inr v)"

text \<open>\<^verbatim>\<open>str(args.k)\<close>\<close>

definition str_attr :: "pydict \<Rightarrow> string \<Rightarrow> pyexc + string" where
  "str_attr args k = (case getattr args k of Inl e \<Rightarrow> Inl e | Inr v \<Rightarrow> Inr (pystr v))"

text \<open>\<^verbatim>\<open>hasattr(args, k) and args.k.lower() in accepted\<close>\<close>

definition flag_attr :: "pydict \<Rightarrow> string \<Rightarrow> string list \<Rightarrow> pyexc + bool" where
  "flag_attr args k accepted =
     (case map_of args k of
        None \<Rightarrow> Inr False
      | Some v \<Rightarrow> (case py_lower v of Inl e \<Rightarrow> Inl e | Inr s \<Rightarrow> Inr (s \<in> set accepted)))"

text \<open>\<^verbatim>\<open>str(getattr(args, k, '')).lower() in accepted\<close>\<close>

definition str_flag :: "pydict \<Rightarrow> string \<Rightarrow> string list \<Rightarrow> bool" where
  "str_flag args k accepted =
     (lower (pystr (case map_of args k of None \<Rightarrow> PStr [] | Some v \<Rightarrow> v)) \<in> set accepted)"

text \<open>
  \<^verbatim>\<open>if hasattr(args, 'device_ids') and args.device_ids: device_ids = args.device_ids.split(',')\<close>,
  with \<^verbatim>\<open>device_ids = None\<close> before it.
\<close>

definition csv_attr :: "pydict \<Rightarrow> string \<Rightarrow> pyexc + string list option" where
  "csv_attr args k =
     (case map_of args k of
        None \<Rightarrow> Inr None
      | Some v \<Rightarrow>
          if truthy v then (case py_split v of Inl e \<Rightarrow> Inl e | Inr l \<Rightarrow> Inr (Some l))
          else Inr None)"

subsection \<open>Calls with keyword arguments\<close>

text \<open>
  A call \<^verbatim>\<open>f(a1, ..., an, k1=v1, ...)\<close> of a function defined with the parameters
  \<open>params\<close>, the first \<open>nreq\<close> of them without a default, raises TypeError before the
  body runs when there are too many positional arguments, when a keyword is not a
  parameter, when a keyword names a parameter already given by position, or when a
  required parameter is not given. The exception carries the name of the function.
\<close>

definition call_check :: "string \<Rightarrow> string list \<Rightarrow> nat \<Rightarrow> nat \<Rightarrow> string list \<Rightarrow> pyexc option" where
  "call_check fname params nreq npos kws =
     (if length params < npos then Some (TypeError fname)
      else if \<exists>k \<in> set kws. k \<notin> set params then Some (TypeError fname)
      else if \<exists>k \<in> set kws. k \<in> set (take npos params) then Some (TypeError fname)
      else if \<exists>p \<in> set (drop npos (take nreq params)). p \<notin> set kws then Some (TypeError fname)
      else None)"


section \<open>The collaborators of \<^verbatim>\<open>actions.py\<close>\<close>

text \<open>
  \<^verbatim>\<open>actions.py\<close> imports the storage operations from \<^verbatim>\<open>blockstack_client.data\<close>, the
  RPC client from \<^verbatim>\<open>rpc\<close> and the key functions from \<^verbatim>\<open>keys\<close>. Each imported
  function is a parameter of the function that calls it. The state \<open>'s\<close> is
  everything outside the process: the storage behind the API endpoint and the local
  file system. A collaborator that may change it returns the new state.
\<close>

record 's rpc_client =
  local_api_connect :: "'s \<Rightarrow> bool"
  backend_datastore_get :: "'s \<Rightarrow> string \<Rightarrow> string list option \<Rightarrow> pydict \<times> 's"

text \<open>
  \<open>local_api_connect rpc s\<close> is false when \<^verbatim>\<open>local_api_connect\<close> returns
  \<^verbatim>\<open>None\<close>. \<open>backend_datastore_get rpc s datastore_id device_ids\<close> is the call
  \<^verbatim>\<open>rpc.backend_datastore_get(datastore_id, device_ids=device_ids)\<close>; a call without
  the keyword passes \<open>None\<close>.
\<close>

record keys_env =
  get_pubkey_hex :: "string \<Rightarrow> string"
  datastore_get_id :: "string \<Rightarrow> string"

record 's os_env =
  os_path_exists :: "'s \<Rightarrow> string \<Rightarrow> bool"
  read_file :: "'s \<Rightarrow> string \<Rightarrow> string option"

text \<open>
  \<open>read_file os s p\<close> is \<open>None\<close> when \<^verbatim>\<open>open(p)\<close> or \<^verbatim>\<open>f.read()\<close> raises.
\<close>

record 's cli_env =
  get_default_proxy :: "'s \<Rightarrow> pyexc + pyval"
  get_default_password :: "'s \<Rightarrow> pyval \<Rightarrow> pyexc + pyval"

text \<open>
  The operations of \<^verbatim>\<open>blockstack_client.data\<close>, with the arguments each call site
  passes, after \<^verbatim>\<open>rpc\<close> and without \<^verbatim>\<open>config_path\<close>:
  \<^item> \<^verbatim>\<open>datastore_getfile(rpc, datastore, path, extended=, force=)\<close>, and
    \<^verbatim>\<open>datastore_listdir\<close> alike;
  \<^item> \<^verbatim>\<open>datastore_putfile(rpc, datastore, path, data, datastore_privkey, create=)\<close>;
  \<^item> \<^verbatim>\<open>datastore_stat(rpc, datastore, path, extended=, force=, idata=)\<close>;
  \<^item> \<^verbatim>\<open>datastore_getinode(rpc, datastore, inode_uuid, idata=)\<close>;
  \<^item> \<^verbatim>\<open>datastore_deletefile(rpc, datastore, path, privkey, force=)\<close>;
  \<^item> \<^verbatim>\<open>datastore_rmtree(rpc, datastore, path, datastore_privkey)\<close>, and
    \<^verbatim>\<open>datastore_mkdir\<close> alike;
  \<^item> \<^verbatim>\<open>datastore_rmdir(rpc, datastore, path, datastore_privkey, force=)\<close>;
  \<^item> \<^verbatim>\<open>delete_datastore(rpc, datastore, datastore_privkey)\<close>;
  \<^item> \<^verbatim>\<open>make_datastore_info(datastore_type, datastore_pubkey, driver_names=)\<close>;
  \<^item> \<^verbatim>\<open>put_datastore(rpc, datastore_info, datastore_privkey)\<close>.
\<close>

type_synonym 's getfile_fn = "'s \<Rightarrow> pyval \<Rightarrow> string \<Rightarrow> bool \<Rightarrow> bool \<Rightarrow> pydict \<times> 's"
type_synonym 's putfile_fn = "'s \<Rightarrow> pyval \<Rightarrow> string \<Rightarrow> pyval \<Rightarrow> string \<Rightarrow> bool \<Rightarrow> pydict \<times> 's"
type_synonym 's stat_fn = "'s \<Rightarrow> pyval \<Rightarrow> string \<Rightarrow> bool \<Rightarrow> bool \<Rightarrow> bool \<Rightarrow> pydict \<times> 's"
type_synonym 's getinode_fn = "'s \<Rightarrow> pyval \<Rightarrow> string \<Rightarrow> bool \<Rightarrow> pydict \<times> 's"
type_synonym 's deletefile_fn = "'s \<Rightarrow> pyval \<Rightarrow> string \<Rightarrow> string \<Rightarrow> bool \<Rightarrow> pydict \<times> 's"
type_synonym 's rmtree_fn = "'s \<Rightarrow> pyval \<Rightarrow> string \<Rightarrow> string \<Rightarrow> pydict \<times> 's"
type_synonym 's delete_datastore_fn = "'s \<Rightarrow> pyval \<Rightarrow> string \<Rightarrow> pydict \<times> 's"
type_synonym 's make_datastore_info_fn = "'s \<Rightarrow> string \<Rightarrow> string \<Rightarrow> string list option \<Rightarrow> pydict"
type_synonym 's put_datastore_fn = "'s \<Rightarrow> pydict \<Rightarrow> string \<Rightarrow> pydict \<times> 's"

type_synonym 's result = "(pyexc + pydict) \<times> 's"

section \<open>The datastore functions of \<^verbatim>\<open>actions.py\<close>\<close>

definition api_not_running :: pydict where
  "api_not_running =
     [(''error'', PStr (''API endpoint not running. Please start it with ''
                        @ [CHR 0x60] @ ''api start'' @ [CHR 0x60]))]"

text \<open>\<^verbatim>\<open>'{} is a {}'.format(datastore_id, datastore['type'])\<close>\<close>

definition is_a :: "string \<Rightarrow> pyval \<Rightarrow> string" where
  "is_a datastore_id ty = datastore_id @ '' is a '' @ pystr ty"

subsection \<open>\<^verbatim>\<open>is_valid_path\<close>\<close>

definition string_printable :: string where
  "string_printable =
     ''0123456789abcdefghijklmnopqrstuvwxyzABCDEFGHIJKLMNOPQRSTUVWXYZ''
     @ ''!'' @ [CHR 0x22] @ ''#$%&'' @ [CHR 0x27] @ ''()*+,-./:;<=>?@['' @ [CHR 0x5C]
     @ '']^_'' @ [CHR 0x60] @ ''{|}~''
     @ [CHR 0x20, CHR 0x09, CHR 0x0A, CHR 0x0D, CHR 0x0B, CHR 0x0C]"

definition valid_chars :: "char set" where
  "valid_chars = set string_printable - set [CHR 0x09, CHR 0x0A, CHR 0x0D, CHR 0x0B, CHR 0x0C]"

fun is_valid_path :: "pyval \<Rightarrow> bool" where
  "is_valid_path (PStr path) = (filter (\<lambda>x. x \<in> valid_chars) path = path)"
| "is_valid_path v = False"

subsection \<open>\<^verbatim>\<open>_remove_datastore\<close>, \<^verbatim>\<open>create_datastore_by_type\<close>, \<^verbatim>\<open>delete_datastore_by_type\<close>\<close>

definition remove_datastore ::
  "'s rmtree_fn \<Rightarrow> 's delete_datastore_fn \<Rightarrow> 's \<Rightarrow> pyval \<Rightarrow> string \<Rightarrow> bool \<Rightarrow> bool \<Rightarrow> 's result" where
  "remove_datastore datastore_rmtree delete_datastore s datastore datastore_privkey rmtree force =
     (if rmtree then
        (case datastore_rmtree s datastore ''/'' datastore_privkey of
           (res, s1) \<Rightarrow>
             if has_key res ''error'' \<and> \<not> force then
               (Inr [(''error'', PStr ''Failed to remove all files and directories''),
                     (''errno'', PInt ENOTEMPTY)], s1)
             else (case delete_datastore s1 datastore datastore_privkey of
                     (res2, s2) \<Rightarrow> (Inr res2, s2)))
      else (case delete_datastore s datastore datastore_privkey of
              (res2, s2) \<Rightarrow> (Inr res2, s2)))"

definition remove_datastore_params :: "string list" where
  "remove_datastore_params =
     [''rpc'', ''datastore'', ''datastore_privkey'', ''rmtree'', ''force'', ''config_path'']"

definition create_datastore_by_type ::
  "keys_env \<Rightarrow> 's rpc_client \<Rightarrow> 's make_datastore_info_fn \<Rightarrow> 's put_datastore_fn \<Rightarrow>
   's \<Rightarrow> string \<Rightarrow> string \<Rightarrow> string list option \<Rightarrow> 's result" where
  "create_datastore_by_type keys rpc make_datastore_info put_datastore s
       datastore_type datastore_privkey drivers =
     (let datastore_pubkey = get_pubkey_hex keys datastore_privkey;
          datastore_id = datastore_get_id keys datastore_pubkey
      in if \<not> local_api_connect rpc s then (Inr api_not_running, s)
         else (case backend_datastore_get rpc s datastore_id None of
                 (res, s1) \<Rightarrow>
                   if \<not> has_key res ''error'' then
                     (Inr [(''error'', PStr ''Datastore exists''), (''errno'', PInt EEXIST)], s1)
                   else
                     (let datastore_info = make_datastore_info s1 datastore_type datastore_pubkey drivers
                      in if has_key datastore_info ''error'' then (Inr datastore_info, s1)
                         else (case put_datastore s1 datastore_info datastore_privkey of
                                 (res2, s2) \<Rightarrow>
                                   if has_key res2 ''error'' then (Inr res2, s2)
                                   else (Inr [(''status'', PBool True)], s2)))))"

definition create_datastore_by_type_params :: "string list" where
  "create_datastore_by_type_params =
     [''datastore_type'', ''datastore_privkey'', ''drivers'', ''config_path'']"

definition delete_datastore_by_type ::
  "keys_env \<Rightarrow> 's rpc_client \<Rightarrow> 's rmtree_fn \<Rightarrow> 's delete_datastore_fn \<Rightarrow>
   's \<Rightarrow> string \<Rightarrow> string \<Rightarrow> bool \<Rightarrow> 's result" where
  "delete_datastore_by_type keys rpc datastore_rmtree delete_datastore s
       datastore_type datastore_privkey force =
     (let datastore_id = datastore_get_id keys (get_pubkey_hex keys datastore_privkey)
      in if \<not> local_api_connect rpc s then (Inr api_not_running, s)
         else (case backend_datastore_get rpc s datastore_id None of
                 (datastore_info, s1) \<Rightarrow>
                   if has_key datastore_info ''error'' then (Inr datastore_info, s1)
                   else (case get_item datastore_info ''datastore'' of
                           Inl e \<Rightarrow> (Inl e, s1)
                         | Inr datastore \<Rightarrow>
                             (case subscript datastore ''type'' of
                                Inl e \<Rightarrow> (Inl e, s1)
                              | Inr ty \<Rightarrow>
                                  if ty \<noteq> PStr datastore_type then
                                    (Inr [(''error'', PStr (is_a datastore_id ty))], s1)
                                  else (case call_check ''_remove_datastore'' remove_datastore_params 3 3
                                               [''rmtree'', ''force'', ''config_path''] of
                                          Some e \<Rightarrow> (Inl e, s1)
                                        | None \<Rightarrow>
                                            (case remove_datastore datastore_rmtree delete_datastore s1
                                                    datastore datastore_privkey True force of
                                               (Inl e, s2) \<Rightarrow> (Inl e, s2)
                                             | (Inr res, s2) \<Rightarrow>
                                                 if has_key res ''error'' then (Inr res, s2)
                                                 else (Inr [(''status'', PBool True)], s2)))))))"

definition delete_datastore_by_type_params :: "string list" where
  "delete_datastore_by_type_params =
     [''datastore_type'', ''datastore_privkey'', ''force'', ''config_path'']"

subsection \<open>\<^verbatim>\<open>datastore_file_get\<close>, \<^verbatim>\<open>datastore_file_put\<close>, \<^verbatim>\<open>datastore_dir_list\<close>,
  \<^verbatim>\<open>datastore_path_stat\<close>, \<^verbatim>\<open>datastore_inode_getinode\<close>\<close>

definition datastore_file_get ::
  "'s rpc_client \<Rightarrow> 's getfile_fn \<Rightarrow> 's \<Rightarrow> string \<Rightarrow> string \<Rightarrow> string \<Rightarrow> bool \<Rightarrow> bool \<Rightarrow>
   string list option \<Rightarrow> 's result" where
  "datastore_file_get rpc datastore_getfile s datastore_type datastore_id path extended force device_ids =
     (if \<not> local_api_connect rpc s then (Inr api_not_running, s)
      else (case backend_datastore_get rpc s datastore_id device_ids of
              (datastore_info, s1) \<Rightarrow>
                if has_key datastore_info ''error'' then
                  (Inr (if \<not> has_key datastore_info ''errno''
                        then set_item datastore_info ''errno'' (PInt EPERM)
                        else datastore_info), s1)
                else (case get_item datastore_info ''datastore'' of
                        Inl e \<Rightarrow> (Inl e, s1)
                      | Inr datastore \<Rightarrow>
                          (case subscript datastore ''type'' of
                             Inl e \<Rightarrow> (Inl e, s1)
                           | Inr ty \<Rightarrow>
                               if ty \<noteq> PStr datastore_type then
                                 (Inr [(''error'', PStr (is_a datastore_id ty))], s1)
                               else (case datastore_getfile s1 datastore path extended force of
                                       (res, s2) \<Rightarrow> (Inr res, s2))))))"

definition datastore_file_get_params :: "string list" where
  "datastore_file_get_params =
     [''datastore_type'', ''datastore_id'', ''path'', ''extended'', ''force'', ''device_ids'',
      ''config_path'']"

text \<open>
  In \<open>datastore_file_put\<close> the result of \<^verbatim>\<open>datastore_putfile\<close> is returned in both
  branches of the last \<^verbatim>\<open>if\<close>. The message of a failed read is formatted from
  \<^verbatim>\<open>data\<close>, still the path when \<^verbatim>\<open>open\<close> or \<^verbatim>\<open>read\<close> raises.
\<close>

definition datastore_file_put ::
  "keys_env \<Rightarrow> 's os_env \<Rightarrow> 's rpc_client \<Rightarrow> 's putfile_fn \<Rightarrow> 's \<Rightarrow> string \<Rightarrow> string \<Rightarrow> string \<Rightarrow>
   pyval \<Rightarrow> bool \<Rightarrow> bool \<Rightarrow> bool \<Rightarrow> string list option \<Rightarrow> 's result" where
  "datastore_file_put keys os rpc datastore_putfile s datastore_type datastore_privkey path data
       create force_data force device_ids =
     (let datastore_id = datastore_get_id keys (get_pubkey_hex keys datastore_privkey);
          read = (if is_valid_path data \<and> os_path_exists os s (pystr data) \<and> \<not> force_data
                  then (case read_file os s (pystr data) of
                          None \<Rightarrow> Inl [(''error'', PStr (''Failed to read '' @ [CHR 0x22] @ pystr data
                                                         @ [CHR 0x22]))]
                        | Some contents \<Rightarrow> Inr (PStr contents))
                  else Inr data)
      in case read of
           Inl err \<Rightarrow> (Inr err, s)
         | Inr data1 \<Rightarrow>
             if \<not> local_api_connect rpc s then (Inr api_not_running, s)
             else (case backend_datastore_get rpc s datastore_id device_ids of
                     (datastore_info, s1) \<Rightarrow>
                       if has_key datastore_info ''error'' then (Inr datastore_info, s1)
                       else (case get_item datastore_info ''datastore'' of
                               Inl e \<Rightarrow> (Inl e, s1)
                             | Inr datastore \<Rightarrow>
                                 (case datastore_putfile s1 datastore path data1 datastore_privkey create of
                                    (res, s2) \<Rightarrow> (Inr res, s2)))))"

definition datastore_file_put_params :: "string list" where
  "datastore_file_put_params =
     [''datastore_type'', ''datastore_privkey'', ''path'', ''data'', ''create'', ''force_data'',
      ''force'', ''device_ids'', ''config_path'']"

definition datastore_dir_list ::
  "'s rpc_client \<Rightarrow> 's getfile_fn \<Rightarrow> 's \<Rightarrow> string \<Rightarrow> string \<Rightarrow> string \<Rightarrow> bool \<Rightarrow> bool \<Rightarrow>
   string list option \<Rightarrow> 's result" where
  "datastore_dir_list rpc datastore_listdir s datastore_type datastore_id path extended force device_ids =
     (if \<not> local_api_connect rpc s then (Inr api_not_running, s)
      else (case backend_datastore_get rpc s datastore_id device_ids of
              (datastore_info, s1) \<Rightarrow>
                if has_key datastore_info ''error'' then
                  (Inr (if \<not> has_key datastore_info ''errno''
                        then set_item datastore_info ''errno'' (PInt EPERM)
                        else datastore_info), s1)
                else (case get_item datastore_info ''datastore'' of
                        Inl e \<Rightarrow> (Inl e, s1)
                      | Inr datastore \<Rightarrow>
                          (case subscript datastore ''type'' of
                             Inl e \<Rightarrow> (Inl e, s1)
                           | Inr ty \<Rightarrow>
                               if ty \<noteq> PStr datastore_type then
                                 (Inr [(''error'', PStr (is_a datastore_id ty)),
                                       (''errno'', PInt EINVAL)], s1)
                               else if datastore_type = ''collection'' \<and> path \<noteq> ''/'' then
                                 (Inr [(''error'', PStr ''Invalid argument: collections do not have directories''),
                                       (''errno'', PInt EINVAL)], s1)
                               else (case datastore_listdir s1 datastore path extended force of
                                       (res, s2) \<Rightarrow> (Inr res, s2))))))"

definition datastore_dir_list_params :: "string list" where
  "datastore_dir_list_params =
     [''datastore_type'', ''datastore_id'', ''path'', ''extended'', ''force'', ''device_ids'',
      ''config_path'']"

definition datastore_path_stat ::
  "'s rpc_client \<Rightarrow> 's stat_fn \<Rightarrow> 's \<Rightarrow> string \<Rightarrow> string \<Rightarrow> string \<Rightarrow> bool \<Rightarrow> bool \<Rightarrow> bool \<Rightarrow>
   string list option \<Rightarrow> 's result" where
  "datastore_path_stat rpc datastore_stat s datastore_type datastore_id path extended force idata device_ids =
     (if \<not> local_api_connect rpc s then (Inr api_not_running, s)
      else (case backend_datastore_get rpc s datastore_id device_ids of
              (datastore_info, s1) \<Rightarrow>
                if has_key datastore_info ''error'' then (Inr datastore_info, s1)
                else (case get_item datastore_info ''datastore'' of
                        Inl e \<Rightarrow> (Inl e, s1)
                      | Inr datastore \<Rightarrow>
                          (case subscript datastore ''type'' of
                             Inl e \<Rightarrow> (Inl e, s1)
                           | Inr ty \<Rightarrow>
                               if ty \<noteq> PStr datastore_type then
                                 (Inr [(''error'', PStr (is_a datastore_id ty))], s1)
                               else (case datastore_stat s1 datastore path extended force idata of
                                       (res, s2) \<Rightarrow> (Inr res, s2))))))"


definition datastore_inode_getinode ::
  "'s rpc_client \<Rightarrow> 's getinode_fn \<Rightarrow> 's \<Rightarrow> string \<Rightarrow> string \<Rightarrow> string \<Rightarrow> bool \<Rightarrow>
   string list option \<Rightarrow> 's result" where
  "datastore_inode_getinode rpc datastore_getinode s datastore_type datastore_id inode_uuid idata device_ids =
     (if \<not> local_api_connect rpc s then (Inr api_not_running, s)
      else (case backend_datastore_get rpc s datastore_id device_ids of
              (datastore_info, s1) \<Rightarrow>
                if has_key datastore_info ''error'' then (Inr datastore_info, s1)
                else (case get_item datastore_info ''datastore'' of
                        Inl e \<Rightarrow> (Inl e, s1)
                      | Inr datastore \<Rightarrow>
                          (case subscript datastore ''type'' of
                             Inl e \<Rightarrow> (Inl e, s1)
                           | Inr ty \<Rightarrow>
                               if ty \<noteq> PStr datastore_type then
                                 (Inr [(''error'', PStr (is_a datastore_id ty))], s1)
                               else (case datastore_getinode s1 datastore inode_uuid idata of
                                       (res, s2) \<Rightarrow> (Inr res, s2))))))"

definition datastore_inode_getinode_params :: "string list" where
  "datastore_inode_getinode_params =
     [''datastore_type'', ''datastore_id'', ''inode_uuid'', ''idata'', ''device_ids'', ''config_path'']"


section \<open>The command-line entry points\<close>

text \<open>
  Each \<^verbatim>\<open>cli_\<close> function reads its arguments from the namespace and calls one of
  the functions above with keyword arguments. \<open>and_then x s k\<close> continues with the
  value of \<open>x\<close>, or leaves the function with the exception \<open>x\<close> raised, in the state
  \<open>s\<close>; \<open>checked c s r\<close> is a call whose binding of arguments to parameters is
  \<open>c\<close> and whose body gives \<open>r\<close>.
\<close>

definition and_then :: "pyexc + 'a \<Rightarrow> 's \<Rightarrow> ('a \<Rightarrow> 's result) \<Rightarrow> 's result" where
  "and_then x s k = (case x of Inl e \<Rightarrow> (Inl e, s) | Inr v \<Rightarrow> k v)"

definition checked :: "pyexc option \<Rightarrow> 's \<Rightarrow> 's result \<Rightarrow> 's result" where
  "checked c s r = (case c of Some e \<Rightarrow> (Inl e, s) | None \<Rightarrow> r)"

definition cli_datastore_getfile :: "'s rpc_client \<Rightarrow> 's getfile_fn \<Rightarrow> 's \<Rightarrow> pydict \<Rightarrow> 's result" where
  "cli_datastore_getfile rpc datastore_getfile s args =
     and_then (str_attr args ''datastore_id'') s (\<lambda>datastore_id.
     and_then (str_attr args ''path'') s (\<lambda>path.
     and_then (flag_attr args ''extended'' [''1'', ''true'']) s (\<lambda>extended.
     and_then (flag_attr args ''force'' [''1'', ''true'']) s (\<lambda>force.
     and_then (csv_attr args ''device_ids'') s (\<lambda>device_ids.
     checked (call_check ''datastore_file_get'' datastore_file_get_params 3 3
                [''extended'', ''force'', ''device_ids'', ''config_path'']) s
       (datastore_file_get rpc datastore_getfile s ''datastore'' datastore_id path
          extended force device_ids))))))"

definition cli_datastore_listdir :: "'s rpc_client \<Rightarrow> 's getfile_fn \<Rightarrow> 's \<Rightarrow> pydict \<Rightarrow> 's result" where
  "cli_datastore_listdir rpc datastore_listdir s args =
     and_then (str_attr args ''datastore_id'') s (\<lambda>datastore_id.
     and_then (str_attr args ''path'') s (\<lambda>path.
     and_then (flag_attr args ''extended'' [''1'', ''true'']) s (\<lambda>extended.
     and_then (flag_attr args ''force'' [''1'', ''true'']) s (\<lambda>force.
     and_then (csv_attr args ''device_ids'') s (\<lambda>device_ids.
     checked (call_check ''datastore_dir_list'' datastore_dir_list_params 3 3
                [''extended'', ''force'', ''device_ids'', ''config_path'']) s
       (datastore_dir_list rpc datastore_listdir s ''datastore'' datastore_id path
          extended force device_ids))))))"


text \<open>
  In \<open>cli_datastore_getinode\<close> the source splits its local variable
  \<^verbatim>\<open>device_ids\<close>, which is \<^verbatim>\<open>None\<close> there, and passes \<^verbatim>\<open>force=force\<close> to
  \<^verbatim>\<open>datastore_inode_getinode\<close>.
\<close>

definition cli_datastore_getinode :: "'s rpc_client \<Rightarrow> 's getinode_fn \<Rightarrow> 's \<Rightarrow> pydict \<Rightarrow> 's result" where
  "cli_datastore_getinode rpc datastore_getinode s args =
     and_then (str_attr args ''datastore_id'') s (\<lambda>datastore_id.
     and_then (str_attr args ''inode_uuid'') s (\<lambda>inode_uuid.
     and_then (flag_attr args ''force'' [''1'', ''true'']) s (\<lambda>force.
     and_then (flag_attr args ''idata'' [''1'', ''true'']) s (\<lambda>idata.
     and_then (case map_of args ''device_ids'' of
                 None \<Rightarrow> Inr None
               | Some v \<Rightarrow>
                   if truthy v
                   then (case py_split PNone of Inl e \<Rightarrow> Inl e | Inr l \<Rightarrow> Inr (Some l))
                   else Inr None) s (\<lambda>device_ids.
     checked (call_check ''datastore_inode_getinode'' datastore_inode_getinode_params 3 3
                [''force'', ''idata'', ''device_ids'', ''config_path'']) s
       (datastore_inode_getinode rpc datastore_getinode s ''datastore'' datastore_id inode_uuid
          idata device_ids))))))"

text \<open>
  \<open>cli_datastore_putfile\<close> computes \<^verbatim>\<open>force\<close> and calls \<^verbatim>\<open>datastore_file_put\<close>
  without it, so that \<^verbatim>\<open>datastore_file_put\<close> runs with its default
  \<^verbatim>\<open>force=False\<close>.
\<close>

definition cli_datastore_putfile ::
  "keys_env \<Rightarrow> 's os_env \<Rightarrow> 's rpc_client \<Rightarrow> 's putfile_fn \<Rightarrow> 's \<Rightarrow> pydict \<Rightarrow> bool \<Rightarrow> 's result" where
  "cli_datastore_putfile keys os rpc datastore_putfile s args force_data =
     and_then (str_attr args ''path'') s (\<lambda>path.
     and_then (str_attr args ''data'') s (\<lambda>data.
     and_then (str_attr args ''privkey'') s (\<lambda>privkey.
     (let create = str_flag args ''create'' [''1'', ''create'', ''true''];
          force = str_flag args ''force'' [''1'', ''true'']
      in and_then (csv_attr args ''device_ids'') s (\<lambda>device_ids.
         checked (call_check ''datastore_file_put'' datastore_file_put_params 4 4
                    [''create'', ''force_data'', ''device_ids'', ''config_path'']) s
           (datastore_file_put keys os rpc datastore_putfile s ''datastore'' privkey path
              (PStr data) create force_data False device_ids))))))"

definition cli_datastore_deletefile ::
  "keys_env \<Rightarrow> 's rpc_client \<Rightarrow> 's deletefile_fn \<Rightarrow> 's \<Rightarrow> pydict \<Rightarrow> 's result" where
  "cli_datastore_deletefile keys rpc datastore_deletefile s args =
     and_then (str_attr args ''path'') s (\<lambda>path.
     and_then (str_attr args ''privkey'') s (\<lambda>privkey.
     (let datastore_id = datastore_get_id keys (get_pubkey_hex keys privkey);
          force = str_flag args ''force'' [''1'', ''true'']
      in and_then (csv_attr args ''device_ids'') s (\<lambda>device_ids.
         if \<not> local_api_connect rpc s then (Inr api_not_running, s)
         else (case backend_datastore_get rpc s datastore_id device_ids of
                 (datastore_info, s1) \<Rightarrow>
                   if has_key datastore_info ''error'' then
                     (Inr (set_item datastore_info ''errno'' (PInt EPERM)), s1)
                   else and_then (get_item datastore_info ''datastore'') s1 (\<lambda>datastore.
                          (case datastore_deletefile s1 datastore path privkey force of
                             (res, s2) \<Rightarrow> (Inr res, s2))))))))"




subsection \<open>The collection entry points\<close>

text \<open>
  \<^verbatim>\<open>if proxy is None: proxy = get_default_proxy(config_path)\<close> opens each of them.
\<close>

definition default_proxy :: "'s cli_env \<Rightarrow> 's \<Rightarrow> pyval \<Rightarrow> pyexc + pyval" where
  "default_proxy cli s proxy = (if proxy = PNone then get_default_proxy cli s else Inr proxy)"

text \<open>
  The loop of \<open>cli_collection_listitems\<close> over \<^verbatim>\<open>dir_info.keys()\<close>, which keeps the
  entries whose \<^verbatim>\<open>'type'\<close> is \<^verbatim>\<open>MUTABLE_DATUM_FILE_TYPE\<close>, a constant of
  \<^verbatim>\<open>blockstack_client.schemas\<close> taken as the parameter \<open>file_type\<close>.
\<close>

fun filter_items :: "pyval \<Rightarrow> pydict \<Rightarrow> pyexc + pydict" where
  "filter_items file_type [] = Inr []"
| "filter_items file_type ((name, v) # rest) =
     (case subscript v ''type'' of
        Inl e \<Rightarrow> Inl e
      | Inr t \<Rightarrow>
          (case filter_items file_type rest of
             Inl e \<Rightarrow> Inl e
           | Inr kept \<Rightarrow> Inr (if t = file_type then (name, v) # kept else kept)))"

fun dir_items :: "pyval \<Rightarrow> pyval \<Rightarrow> pyexc + pydict" where
  "dir_items file_type (PDict dir_info) = filter_items file_type dir_info"
| "dir_items file_type v = Inl (AttributeError ''keys'')"

definition cli_collection_listitems ::
  "'s cli_env \<Rightarrow> 's rpc_client \<Rightarrow> 's getfile_fn \<Rightarrow> pyval \<Rightarrow> 's \<Rightarrow> pydict \<Rightarrow> pyval \<Rightarrow> pyval \<Rightarrow> 's result" where
  "cli_collection_listitems cli rpc datastore_listdir file_type s args password proxy =
     and_then (default_proxy cli s proxy) s (\<lambda>proxy1.
     and_then (get_default_password cli s password) s (\<lambda>password1.
     and_then (str_attr args ''collection_domain'') s (\<lambda>collection_domain.
     and_then (str_attr args ''path'') s (\<lambda>path.
     checked (call_check ''datastore_dir_list'' datastore_dir_list_params 3 3
                [''config_path'', ''proxy'']) s
       (case datastore_dir_list rpc datastore_listdir s ''collection'' collection_domain ''/''
               False False None of
          (Inl e, s1) \<Rightarrow> (Inl e, s1)
        | (Inr res, s1) \<Rightarrow>
            if has_key res ''error'' then (Inr res, s1)
            else and_then (get_item res ''dir'') s1 (\<lambda>dir_info.
                 and_then (dir_items file_type dir_info) s1 (\<lambda>filtered_dir_info.
                   (Inr [(''status'', PBool True), (''dir'', PDict filtered_dir_info)], s1))))))))"

text \<open>
  \<open>cli_collection_statitem\<close> has no parameter \<^verbatim>\<open>password\<close>: its second statement,
  \<^verbatim>\<open>password = get_default_password(password)\<close>, reads the local variable before
  any assignment. Nothing after that statement runs.
\<close>

definition cli_collection_statitem ::
  "'s cli_env \<Rightarrow> 's rpc_client \<Rightarrow> 's stat_fn \<Rightarrow> 's \<Rightarrow> pydict \<Rightarrow> pyval \<Rightarrow> 's result" where
  "cli_collection_statitem cli rpc datastore_stat s args proxy =
     and_then (default_proxy cli s proxy) s (\<lambda>proxy1.
       (Inl (UnboundLocalError ''password''), s))"

text \<open>
  \<open>cli_collection_putitem\<close> passes \<^verbatim>\<open>collection_privkey\<close>, a string or
  \<^verbatim>\<open>None\<close>, where \<open>datastore_file_put\<close> takes the private key; the model passes
  its text.
\<close>

definition cli_collection_putitem ::
  "'s cli_env \<Rightarrow> keys_env \<Rightarrow> 's os_env \<Rightarrow> 's rpc_client \<Rightarrow> 's putfile_fn \<Rightarrow> 's \<Rightarrow> pydict \<Rightarrow>
   pyval \<Rightarrow> pyval \<Rightarrow> bool \<Rightarrow> 's result" where
  "cli_collection_putitem cli keys os rpc datastore_putfile s args proxy password force_data =
     and_then (default_proxy cli s proxy) s (\<lambda>proxy1.
     and_then (get_default_password cli s password) s (\<lambda>password1.
     and_then (str_attr args ''collection_domain'') s (\<lambda>collection_domain.
     and_then (str_attr args ''item_id'') s (\<lambda>item_id.
     and_then (getattr args ''data'') s (\<lambda>data.
     (let collection_privkey =
            (case map_of args ''collection_privkey'' of
               None \<Rightarrow> PNone
             | Some v \<Rightarrow> if v \<noteq> PNone then PStr (pystr v) else PNone)
      in checked (call_check ''datastore_file_put'' datastore_file_put_params 4 4
                    [''app_domain'', ''create'', ''force_data'', ''proxy'', ''config_path'',
                     ''master_data_privkey'', ''password'']) s
           (datastore_file_put keys os rpc datastore_putfile s ''collection''
              (pystr collection_privkey) (''/'' @ item_id) data True force_data False None)))))))"

definition cli_collection_getitem ::
  "'s cli_env \<Rightarrow> 's rpc_client \<Rightarrow> 's getfile_fn \<Rightarrow> 's \<Rightarrow> pydict \<Rightarrow> pyval \<Rightarrow> pyval \<Rightarrow> 's result" where
  "cli_collection_getitem cli rpc datastore_getfile s args password proxy =
     and_then (default_proxy cli s proxy) s (\<lambda>proxy1.
     and_then (get_default_password cli s password) s (\<lambda>password1.
     and_then (str_attr args ''collection_domain'') s (\<lambda>collection_domain.
     and_then (str_attr args ''item_id'') s (\<lambda>item_id.
     checked (call_check ''datastore_file_get'' datastore_file_get_params 3 3
                [''password'', ''config_path'', ''proxy'']) s
       (datastore_file_get rpc datastore_getfile s ''collection'' collection_domain
          (''/'' @ item_id) False False None)))))"


section \<open>The storage operations behind the entry points\<close>

text \<open>
  \<^verbatim>\<open>blockstack_client/data.py\<close>, which defines \<^verbatim>\<open>datastore_getfile\<close>,
  \<^verbatim>\<open>datastore_putfile\<close>, \<^verbatim>\<open>datastore_deletefile\<close> and \<^verbatim>\<open>datastore_stat\<close>, is not
  among the sources. The definitions of this section follow sections 3, 4 and 6 of the
  specification instead: the data model, the Version Reconciler, the Inode Store, the
  Path Resolver, the operations of section 4.6 and the Tombstone Manager. Signatures
  and the byte encoding of envelopes are left out: an envelope is the inode it wraps.
\<close>

text \<open>
  Modelled from the spec: the \<^verbatim>\<open>uuid\<close> of an inode, an opaque unique identifier, and
  the identifier of a device (section 3).
\<close>

type_synonym uuid = nat
type_synonym device_id = string

text \<open>Modelled from the spec: \<^verbatim>\<open>inode_type\<close> of section 3, \<^verbatim>\<open>file | directory\<close>.\<close>

datatype inode_type = File | Directory

text \<open>
  Modelled from the spec: the payloads of section 3. A directory maps a child name to
  \<^verbatim>\<open>{uuid, inode_type}\<close>; a file holds its bytes.
\<close>

datatype payload =
    FilePayload string
  | DirPayload "(string \<times> uuid \<times> inode_type) list"

text \<open>
  Modelled from the spec: the inode of section 3 inside its envelope: the version and
  the writing device of the envelope, the parent link and the payload. The uuid is the
  key under which the storage holds it.
\<close>

record inode =
  inode_version :: nat
  inode_device :: device_id
  inode_parent :: "uuid option"
  inode_payload :: payload

text \<open>Modelled from the spec: the datastore record of section 3.\<close>

record datastore =
  ds_type :: string
  ds_root :: uuid
  ds_drivers :: "string list"

text \<open>
  Modelled from the spec: everything the operations read and write. \<open>envelopes\<close> is
  what the storage drivers serve for each data identifier, \<open>recorded\<close> each device's
  last recorded version of it, \<open>tombstones\<close> the deletion markers, \<open>device_ids\<close> the
  device set and \<open>local_device\<close> the writing device (external configuration, section
  3). \<open>local_files\<close> is the local file system: the contents of each existing path,
  \<open>None\<close> when it cannot be read.
\<close>

record storage =
  api_running :: bool
  datastores :: "(string \<times> datastore) list"
  envelopes :: "(uuid \<times> inode) list"
  recorded :: "((uuid \<times> device_id) \<times> nat) list"
  tombstones :: "(uuid \<times> device_id) list"
  device_ids :: "device_id list"
  local_device :: device_id
  local_files :: "(string \<times> string option) list"

text \<open>Modelled from the spec: the error taxonomy of section 7 that the operations use.\<close>

datatype fs_error =
    NotFound
  | AlreadyExists
  | NotEmpty
  | StaleData
  | InvalidArgument
  | NotADirectory
  | IsADirectory
  | Tombstoned

text \<open>
  Modelled from the spec: the errno of each error (sections 4.6 and 6). A tombstoned
  read is reported as \<^verbatim>\<open>NotFound/ENOENT\<close> (section 8, tombstone enforcement), a
  stale one as \<^verbatim>\<open>EPERM\<close>.
\<close>

fun errno_of :: "fs_error \<Rightarrow> int" where
  "errno_of NotFound = ENOENT"
| "errno_of AlreadyExists = EEXIST"
| "errno_of NotEmpty = ENOTEMPTY"
| "errno_of StaleData = EPERM"
| "errno_of InvalidArgument = EINVAL"
| "errno_of NotADirectory = ENOTDIR"
| "errno_of IsADirectory = EISDIR"
| "errno_of Tombstoned = ENOENT"

subsection \<open>Version Reconciler (section 4.3)\<close>

text \<open>
  Modelled from the spec: \<^verbatim>\<open>current_version(data_id, device_ids)\<close>, the maximum of
  the devices' last recorded versions, a miss counting as version 0.
\<close>

definition device_version :: "storage \<Rightarrow> uuid \<Rightarrow> device_id \<Rightarrow> nat" where
  "device_version st u d = (case map_of (recorded st) (u, d) of None \<Rightarrow> 0 | Some v \<Rightarrow> v)"

text \<open>Modelled from the spec: \<^verbatim>\<open>current_version\<close> itself, the maximum over the device set.\<close>

definition current_version :: "storage \<Rightarrow> uuid \<Rightarrow> nat" where
  "current_version st u = foldr max (map (device_version st u) (device_ids st)) 0"

text \<open>Modelled from the spec: \<^verbatim>\<open>next_version\<close>, \<^verbatim>\<open>current_version(...) + 1\<close>.\<close>

definition next_version :: "storage \<Rightarrow> uuid \<Rightarrow> nat" where
  "next_version st u = current_version st u + 1"

subsection \<open>Tombstone Manager (section 4.7)\<close>

text \<open>Modelled from the spec: \<^verbatim>\<open>make_tombstones\<close>, one tombstone per device ID.\<close>

definition make_tombstones :: "uuid \<Rightarrow> device_id list \<Rightarrow> (uuid \<times> device_id) list" where
  "make_tombstones u devs = map (Pair u) devs"

text \<open>Modelled from the spec: \<^verbatim>\<open>is_tombstoned(data_id, device_id)\<close>.\<close>

definition is_tombstoned :: "storage \<Rightarrow> uuid \<Rightarrow> device_id \<Rightarrow> bool" where
  "is_tombstoned st u d = ((u, d) \<in> set (tombstones st))"

subsection \<open>Inode Store (section 4.4)\<close>

text \<open>
  Modelled from the spec: \<^verbatim>\<open>create_inode\<close>: version 0 metadata and an empty
  payload. The fresh uuid is \<open>fresh_uuid\<close>, above every uuid the storage mentions.
\<close>

definition create_inode :: "storage \<Rightarrow> inode_type \<Rightarrow> uuid \<Rightarrow> inode" where
  "create_inode st t parent =
     \<lparr>inode_version = 0, inode_device = local_device st, inode_parent = Some parent,
      inode_payload = (case t of File \<Rightarrow> FilePayload [] | Directory \<Rightarrow> DirPayload [])\<rparr>"

text \<open>Modelled from the spec: a uuid is generated at creation and never reused.\<close>

definition fresh_uuid :: "storage \<Rightarrow> uuid" where
  "fresh_uuid st =
     Suc (foldr max (map fst (envelopes st) @ map (\<lambda>r. fst (fst r)) (recorded st)
                     @ map fst (tombstones st)) 0)"

text \<open>
  Modelled from the spec: \<^verbatim>\<open>load_inode(uuid, device_ids, force)\<close>: \<^verbatim>\<open>NotFound\<close> if
  no driver has the envelope; without \<^verbatim>\<open>force\<close>, \<^verbatim>\<open>Tombstoned\<close> if a tombstone for
  the uuid is found and \<^verbatim>\<open>StaleData\<close> if a strictly newer version is known.
\<close>

definition load_inode :: "storage \<Rightarrow> bool \<Rightarrow> uuid \<Rightarrow> fs_error + inode" where
  "load_inode st force u =
     (case map_of (envelopes st) u of
        None \<Rightarrow> Inl NotFound
      | Some i \<Rightarrow>
          if \<not> force \<and> list_ex (is_tombstoned st u) (device_ids st) then Inl Tombstoned
          else if \<not> force \<and> inode_version i < current_version st u then Inl StaleData
          else Inr i)"

text \<open>
  Modelled from the spec: \<^verbatim>\<open>save_inode\<close>: computes \<^verbatim>\<open>next_version\<close>, writes the
  envelope to the drivers; the writing device records the version it wrote.
\<close>

definition save_inode :: "storage \<Rightarrow> uuid \<Rightarrow> inode \<Rightarrow> nat \<times> storage" where
  "save_inode st u i =
     (let v = next_version st u
      in (v, st\<lparr>envelopes := AList.update u (i\<lparr>inode_version := v, inode_device := local_device st\<rparr>)
                                (envelopes st),
                 recorded := AList.update (u, local_device st) v (recorded st)\<rparr>))"

subsection \<open>Path Resolver (section 4.5)\<close>

text \<open>Modelled from the spec: the path split on \<^verbatim>\<open>/\<close>, empty segments discarded.\<close>

definition segments :: "string \<Rightarrow> string list" where
  "segments path = filter (\<lambda>seg. seg \<noteq> []) (split_on CHR ''/'' path)"

text \<open>
  Modelled from the spec: the walk of \<^verbatim>\<open>resolve\<close>: each segment is looked up in the
  current directory's entry map and the child inode loaded; \<^verbatim>\<open>NotADirectory\<close> if the
  current inode is a file, \<^verbatim>\<open>NotFound\<close> if the segment is absent.
\<close>

fun walk :: "storage \<Rightarrow> bool \<Rightarrow> uuid \<times> inode \<Rightarrow> string list \<Rightarrow> fs_error + uuid \<times> inode" where
  "walk st force cur [] = Inr cur"
| "walk st force (u, i) (seg # segs) =
     (case inode_payload i of
        FilePayload bytes \<Rightarrow> Inl NotADirectory
      | DirPayload entries \<Rightarrow>
          (case map_of entries seg of
             None \<Rightarrow> Inl NotFound
           | Some (cu, ct) \<Rightarrow>
               (case load_inode st force cu of
                  Inl e \<Rightarrow> Inl e
                | Inr child \<Rightarrow> walk st force (cu, child) segs)))"

text \<open>
  Modelled from the spec: \<^verbatim>\<open>resolve(datastore, path)\<close>, from the root; in a
  collection a path of more than one segment fails with \<^verbatim>\<open>InvalidArgument\<close>.
\<close>

definition resolve :: "storage \<Rightarrow> datastore \<Rightarrow> bool \<Rightarrow> string \<Rightarrow> fs_error + uuid \<times> inode" where
  "resolve st ds force path =
     (if ds_type ds = ''collection'' \<and> 1 < length (segments path) then Inl InvalidArgument
      else (case load_inode st force (ds_root ds) of
              Inl e \<Rightarrow> Inl e
            | Inr root \<Rightarrow> walk st force (ds_root ds, root) (segments path)))"

text \<open>
  Modelled from the spec: \<^verbatim>\<open>resolve_parent(datastore, path)\<close>, the same walk stopped
  one segment short; the root has no parent and no leaf name.
\<close>

definition resolve_parent ::
  "storage \<Rightarrow> datastore \<Rightarrow> bool \<Rightarrow> string \<Rightarrow> fs_error + (uuid \<times> inode) \<times> string" where
  "resolve_parent st ds force path =
     (if ds_type ds = ''collection'' \<and> 1 < length (segments path) then Inl InvalidArgument
      else if segments path = [] then Inl InvalidArgument
      else (case load_inode st force (ds_root ds) of
              Inl e \<Rightarrow> Inl e
            | Inr root \<Rightarrow>
                (case walk st force (ds_root ds, root) (butlast (segments path)) of
                   Inl e \<Rightarrow> Inl e
                 | Inr parent \<Rightarrow> Inr (parent, last (segments path)))))"

subsection \<open>File operations (section 4.6)\<close>

text \<open>
  Modelled from the spec: \<^verbatim>\<open>getfile(path)\<close>: the leaf resolves to a file;
  \<^verbatim>\<open>EISDIR\<close> if it is a directory.
\<close>

definition getfile :: "storage \<Rightarrow> datastore \<Rightarrow> bool \<Rightarrow> string \<Rightarrow> fs_error + uuid \<times> inode" where
  "getfile st ds force path =
     (case resolve st ds force path of
        Inl e \<Rightarrow> Inl e
      | Inr (u, i) \<Rightarrow>
          (case inode_payload i of
             DirPayload entries \<Rightarrow> Inl IsADirectory
           | FilePayload bytes \<Rightarrow> Inr (u, i)))"

text \<open>Modelled from the spec: \<^verbatim>\<open>stat(path)\<close>, the metadata of the inode at the path.\<close>

definition stat :: "storage \<Rightarrow> datastore \<Rightarrow> bool \<Rightarrow> string \<Rightarrow> fs_error + uuid \<times> inode" where
  "stat st ds force path = resolve st ds force path"

text \<open>
  Modelled from the spec: \<^verbatim>\<open>listdir(path)\<close>: the leaf resolves to a directory;
  \<^verbatim>\<open>ENOTDIR\<close> if it is a file.
\<close>

definition listdir :: "storage \<Rightarrow> datastore \<Rightarrow> bool \<Rightarrow> string \<Rightarrow> fs_error + uuid \<times> inode" where
  "listdir st ds force path =
     (case resolve st ds force path of
        Inl e \<Rightarrow> Inl e
      | Inr (u, i) \<Rightarrow>
          (case inode_payload i of
             FilePayload bytes \<Rightarrow> Inl NotADirectory
           | DirPayload entries \<Rightarrow> Inr (u, i)))"

text \<open>
  Modelled from the spec: \<^verbatim>\<open>putfile(path, bytes, create)\<close>: creates or overwrites the
  file inode payload, bumps the version, inserts the entry into the parent if new;
  \<^verbatim>\<open>EEXIST\<close> if \<^verbatim>\<open>create\<close> and the leaf is present.
\<close>

definition putfile ::
  "storage \<Rightarrow> datastore \<Rightarrow> bool \<Rightarrow> string \<Rightarrow> string \<Rightarrow> bool \<Rightarrow> (fs_error + uuid \<times> nat) \<times> storage" where
  "putfile st ds force path bytes create =
     (case resolve_parent st ds force path of
        Inl e \<Rightarrow> (Inl e, st)
      | Inr ((p, parent), leaf) \<Rightarrow>
          (case inode_payload parent of
             FilePayload b \<Rightarrow> (Inl NotADirectory, st)
           | DirPayload entries \<Rightarrow>
               (case map_of entries leaf of
                  Some (cu, ct) \<Rightarrow>
                    if create then (Inl AlreadyExists, st)
                    else (case load_inode st force cu of
                            Inl e \<Rightarrow> (Inl e, st)
                          | Inr child \<Rightarrow>
                              (case inode_payload child of
                                 DirPayload es \<Rightarrow> (Inl IsADirectory, st)
                               | FilePayload b \<Rightarrow>
                                   (case save_inode st cu (child\<lparr>inode_payload := FilePayload bytes\<rparr>) of
                                      (v, st1) \<Rightarrow> (Inr (cu, v), st1))))
                | None \<Rightarrow>
                    (let cu = fresh_uuid st;
                         child = create_inode st File p
                     in case save_inode st cu (child\<lparr>inode_payload := FilePayload bytes\<rparr>) of
                          (v, st1) \<Rightarrow>
                            (case save_inode st1 p
                                    (parent\<lparr>inode_payload :=
                                              DirPayload (AList.update leaf (cu, File) entries)\<rparr>) of
                               (pv, st2) \<Rightarrow> (Inr (cu, v), st2))))))"

text \<open>
  Modelled from the spec: \<^verbatim>\<open>deletefile(path)\<close>: the leaf resolves to a file; removes
  the entry from the parent and emits a tombstone for the file inode for every device
  of the device set. The drivers keep the envelope of the file.
\<close>

definition deletefile ::
  "storage \<Rightarrow> datastore \<Rightarrow> bool \<Rightarrow> string \<Rightarrow> (fs_error + uuid) \<times> storage" where
  "deletefile st ds force path =
     (case resolve_parent st ds force path of
        Inl e \<Rightarrow> (Inl e, st)
      | Inr ((p, parent), leaf) \<Rightarrow>
          (case inode_payload parent of
             FilePayload b \<Rightarrow> (Inl NotADirectory, st)
           | DirPayload entries \<Rightarrow>
               (case map_of entries leaf of
                  None \<Rightarrow> (Inl NotFound, st)
                | Some (cu, ct) \<Rightarrow>
                    (case load_inode st force cu of
                       Inl e \<Rightarrow> (Inl e, st)
                     | Inr child \<Rightarrow>
                         (case inode_payload child of
                            DirPayload es \<Rightarrow> (Inl IsADirectory, st)
                          | FilePayload b \<Rightarrow>
                              (case save_inode
                                      (st\<lparr>tombstones := make_tombstones cu (device_ids st) @ tombstones st\<rparr>)
                                      p (parent\<lparr>inode_payload := DirPayload (AList.delete leaf entries)\<rparr>) of
                                 (pv, st1) \<Rightarrow> (Inr cu, st1)))))))"


subsection \<open>Directory operations (section 4.6)\<close>



subsection \<open>The operations as the entry points call them (section 6)\<close>

text \<open>
  Modelled from the spec: the datastore record as the dictionary that
  \<^verbatim>\<open>get_datastore\<close> returns and every operation takes as its handle.
\<close>

definition datastore_to_dict :: "string \<Rightarrow> datastore \<Rightarrow> pyval" where
  "datastore_to_dict datastore_id ds =
     PDict [(''datastore_id'', PStr datastore_id), (''type'', PStr (ds_type ds)),
            (''root_uuid'', PInt (int (ds_root ds))),
            (''drivers'', PList (map PStr (ds_drivers ds)))]"

text \<open>Modelled from the spec: a field of the handle that must be a string.\<close>

fun str_of :: "pyval \<Rightarrow> string option" where
  "str_of (PStr s) = Some s"
| "str_of v = None"

text \<open>Modelled from the spec: the handle read back; \<open>None\<close> when it is malformed.\<close>

fun datastore_of_dict :: "pyval \<Rightarrow> datastore option" where
  "datastore_of_dict (PDict d) =
     (case map_of d ''type'' of
        Some (PStr t) \<Rightarrow>
          (case map_of d ''root_uuid'' of
             Some (PInt r) \<Rightarrow>
               (case map_of d ''drivers'' of
                  Some (PList drivers) \<Rightarrow>
                    if 0 \<le> r \<and> list_all (\<lambda>x. str_of x \<noteq> None) drivers
                    then Some \<lparr>ds_type = t, ds_root = nat r,
                               ds_drivers = List.map_filter str_of drivers\<rparr>
                    else None
                | _ \<Rightarrow> None)
           | _ \<Rightarrow> None)
      | _ \<Rightarrow> None)"
| "datastore_of_dict v = None"

text \<open>
  Modelled from the spec: the result object of a failed operation,
  \<^verbatim>\<open>{error, errno}\<close> (section 6).
\<close>

fun error_name :: "fs_error \<Rightarrow> string" where
  "error_name NotFound = ''NotFound''"
| "error_name AlreadyExists = ''AlreadyExists''"
| "error_name NotEmpty = ''NotEmpty''"
| "error_name StaleData = ''StaleData''"
| "error_name InvalidArgument = ''InvalidArgument''"
| "error_name NotADirectory = ''NotADirectory''"
| "error_name IsADirectory = ''IsADirectory''"
| "error_name Tombstoned = ''Tombstoned''"

text \<open>Modelled from the spec: \<^verbatim>\<open>{error, errno}\<close>, with the errno of the error.\<close>

definition error_response :: "fs_error \<Rightarrow> pydict" where
  "error_response e = [(''error'', PStr (error_name e)), (''errno'', PInt (errno_of e))]"

text \<open>
  Modelled from the spec: the inode metadata that \<^verbatim>\<open>getfile\<close> and \<^verbatim>\<open>stat\<close>
  return, with the payload under \<^verbatim>\<open>'idata'\<close> when it is asked for; the integration
  scenario reads \<^verbatim>\<open>res['file']['idata']\<close> and \<^verbatim>\<open>res['inode']['type']\<close>.
\<close>

fun type_name :: "inode_type \<Rightarrow> string" where
  "type_name File = ''file''"
| "type_name Directory = ''directory''"

text \<open>Modelled from the spec: the \<^verbatim>\<open>inode_type\<close> of an inode, that of its payload.\<close>

fun payload_type :: "payload \<Rightarrow> inode_type" where
  "payload_type (FilePayload bytes) = File"
| "payload_type (DirPayload entries) = Directory"

text \<open>Modelled from the spec: a directory entry, \<^verbatim>\<open>name \<rightarrow> {uuid, type}\<close> (section 4.6, listdir).\<close>

fun entry_to_dict :: "string \<times> uuid \<times> inode_type \<Rightarrow> string \<times> pyval" where
  "entry_to_dict (name, u, t) = (name, PDict [(''uuid'', PInt (int u)), (''type'', PStr (type_name t))])"

text \<open>Modelled from the spec: the payload returned under \<^verbatim>\<open>'idata'\<close>.\<close>

fun payload_to_val :: "payload \<Rightarrow> pyval" where
  "payload_to_val (FilePayload bytes) = PStr bytes"
| "payload_to_val (DirPayload entries) = PDict (map entry_to_dict entries)"

text \<open>Modelled from the spec: the metadata of an inode, optionally with its payload.\<close>

definition inode_to_dict :: "uuid \<Rightarrow> inode \<Rightarrow> bool \<Rightarrow> pydict" where
  "inode_to_dict u i idata =
     [(''uuid'', PInt (int u)), (''type'', PStr (type_name (payload_type (inode_payload i)))),
      (''version'', PInt (int (inode_version i))), (''device_id'', PStr (inode_device i))]
     @ (if idata then [(''idata'', payload_to_val (inode_payload i))] else [])"

text \<open>
  Modelled from the spec: \<^verbatim>\<open>get_datastore(datastore_id)\<close> behind the API endpoint
  (section 6).
\<close>

definition spec_rpc :: "storage rpc_client" where
  "spec_rpc =
     \<lparr>local_api_connect = api_running,
      backend_datastore_get = (\<lambda>st datastore_id devs.
        (case map_of (datastores st) datastore_id of
           None \<Rightarrow> (error_response NotFound, st)
         | Some ds \<Rightarrow>
             ([(''status'', PBool True), (''datastore'', datastore_to_dict datastore_id ds)], st)))\<rparr>"

text \<open>Modelled from the spec: the local file system that \<^verbatim>\<open>os.path.exists\<close> and \<^verbatim>\<open>open\<close> read.\<close>

definition spec_os :: "storage os_env" where
  "spec_os =
     \<lparr>os_path_exists = (\<lambda>st p. map_of (local_files st) p \<noteq> None),
      read_file = (\<lambda>st p. (case map_of (local_files st) p of None \<Rightarrow> None | Some c \<Rightarrow> c))\<rparr>"

text \<open>Modelled from the spec: \<^verbatim>\<open>datastore_getfile\<close>, the operation \<^verbatim>\<open>getfile\<close> on a handle.\<close>

definition spec_getfile :: "storage getfile_fn" where
  "spec_getfile st handle path extended force =
     (case datastore_of_dict handle of
        None \<Rightarrow> (error_response InvalidArgument, st)
      | Some ds \<Rightarrow>
          (case getfile st ds force path of
             Inl e \<Rightarrow> (error_response e, st)
           | Inr (u, i) \<Rightarrow>
               ([(''status'', PBool True), (''file'', PDict (inode_to_dict u i True))], st)))"

text \<open>Modelled from the spec: \<^verbatim>\<open>datastore_stat\<close>, the operation \<^verbatim>\<open>stat\<close> on a handle.\<close>

definition spec_stat :: "storage stat_fn" where
  "spec_stat st handle path extended force idata =
     (case datastore_of_dict handle of
        None \<Rightarrow> (error_response InvalidArgument, st)
      | Some ds \<Rightarrow>
          (case stat st ds force path of
             Inl e \<Rightarrow> (error_response e, st)
           | Inr (u, i) \<Rightarrow>
               ([(''status'', PBool True), (''inode'', PDict (inode_to_dict u i idata))], st)))"

text \<open>
  Modelled from the spec: \<^verbatim>\<open>datastore_putfile\<close>, the operation \<^verbatim>\<open>putfile\<close> on a
  handle, called without \<^verbatim>\<open>force\<close>: the default is strict (section 4.3).
\<close>

definition spec_putfile :: "storage putfile_fn" where
  "spec_putfile st handle path data privkey create =
     (case datastore_of_dict handle of
        None \<Rightarrow> (error_response InvalidArgument, st)
      | Some ds \<Rightarrow>
          (case str_of data of
             None \<Rightarrow> (error_response InvalidArgument, st)
           | Some bytes \<Rightarrow>
               (case putfile st ds False path bytes create of
                  (Inl e, st1) \<Rightarrow> (error_response e, st1)
                | (Inr written, st1) \<Rightarrow> ([(''status'', PBool True)], st1))))"

text \<open>Modelled from the spec: \<^verbatim>\<open>datastore_deletefile\<close>, the operation \<^verbatim>\<open>deletefile\<close> on a handle.\<close>

definition spec_deletefile :: "storage deletefile_fn" where
  "spec_deletefile st handle path privkey force =
     (case datastore_of_dict handle of
        None \<Rightarrow> (error_response InvalidArgument, st)
      | Some ds \<Rightarrow>
          (case deletefile st ds force path of
             (Inl e, st1) \<Rightarrow> (error_response e, st1)
           | (Inr deleted, st1) \<Rightarrow> ([(''status'', PBool True)], st1)))"




text \<open>Modelled from the spec: \<^verbatim>\<open>datastore_listdir\<close>, the operation \<^verbatim>\<open>listdir\<close> on a handle.\<close>

definition spec_listdir :: "storage getfile_fn" where
  "spec_listdir st handle path extended force =
     (case datastore_of_dict handle of
        None \<Rightarrow> (error_response InvalidArgument, st)
      | Some ds \<Rightarrow>
          (case listdir st ds force path of
             Inl e \<Rightarrow> (error_response e, st)
           | Inr (u, i) \<Rightarrow>
               ([(''status'', PBool True), (''dir'', PDict (inode_to_dict u i True))], st)))"

text \<open>
  Modelled from the spec: \<^verbatim>\<open>datastore_getinode\<close>, the operation
  \<^verbatim>\<open>getinode(uuid)\<close> on a handle; the uuid arrives as its decimal text, of which
  \<open>digit_of\<close> reads one digit.
\<close>

definition digit_of :: "char \<Rightarrow> nat option" where
  "digit_of c = (if (48::nat) \<le> of_char c \<and> of_char c \<le> (57::nat)
                 then Some (of_char c - 48) else None)"

text \<open>Modelled from the spec: the decimal text of a uuid, read digit by digit.\<close>

fun parse_nat :: "nat \<Rightarrow> string \<Rightarrow> nat option" where
  "parse_nat acc [] = Some acc"
| "parse_nat acc (c # cs) =
     (case digit_of c of None \<Rightarrow> None | Some d \<Rightarrow> parse_nat (10 * acc + d) cs)"

text \<open>Modelled from the spec: the uuid of \<^verbatim>\<open>getinode(uuid)\<close>; the empty text is none.\<close>

definition parse_uuid :: "string \<Rightarrow> uuid option" where
  "parse_uuid text = (if text = [] then None else parse_nat 0 text)"

text \<open>
  Modelled from the spec: \<^verbatim>\<open>getinode(uuid)\<close>: the inode exists; \<^verbatim>\<open>ENOENT\<close>, and
  \<^verbatim>\<open>EPERM\<close> on a stale inode, the call being made without \<^verbatim>\<open>force\<close>.
\<close>

definition spec_getinode :: "storage getinode_fn" where
  "spec_getinode st handle inode_uuid idata =
     (case datastore_of_dict handle of
        None \<Rightarrow> (error_response InvalidArgument, st)
      | Some ds \<Rightarrow>
          (case parse_uuid inode_uuid of
             None \<Rightarrow> (error_response InvalidArgument, st)
           | Some u \<Rightarrow>
               (case load_inode st False u of
                  Inl e \<Rightarrow> (error_response e, st)
                | Inr i \<Rightarrow>
                    ([(''status'', PBool True), (''inode'', PDict (inode_to_dict u i idata))], st))))"

subsection \<open>Datastore lifecycle (section 6)\<close>

text \<open>Modelled from the spec: the \<^verbatim>\<open>datastore_id\<close> of a handle.\<close>

fun handle_id :: "pyval \<Rightarrow> string option" where
  "handle_id (PDict d) = (case map_of d ''datastore_id'' of Some (PStr i) \<Rightarrow> Some i | _ \<Rightarrow> None)"
| "handle_id v = None"

text \<open>
  Modelled from the spec: \<^verbatim>\<open>make_datastore_info\<close>, the record of a new datastore:
  its id derived from the public key, its type, a fresh root uuid and its drivers.
\<close>

definition spec_make_datastore_info :: "keys_env \<Rightarrow> storage make_datastore_info_fn" where
  "spec_make_datastore_info keys st datastore_type datastore_pubkey drivers =
     [(''datastore'',
       datastore_to_dict (datastore_get_id keys datastore_pubkey)
         \<lparr>ds_type = datastore_type, ds_root = fresh_uuid st,
          ds_drivers = (case drivers of None \<Rightarrow> [] | Some names \<Rightarrow> names)\<rparr>)]"

text \<open>
  Modelled from the spec: \<^verbatim>\<open>put_datastore\<close>, which stores the record of
  \<^verbatim>\<open>create_datastore\<close> and an empty root directory; \<^verbatim>\<open>EEXIST\<close> if the datastore
  exists.
\<close>

definition spec_put_datastore :: "storage put_datastore_fn" where
  "spec_put_datastore st datastore_info privkey =
     (case map_of datastore_info ''datastore'' of
        None \<Rightarrow> (error_response InvalidArgument, st)
      | Some handle \<Rightarrow>
          (case handle_id handle of
             None \<Rightarrow> (error_response InvalidArgument, st)
           | Some i \<Rightarrow>
               (case datastore_of_dict handle of
                  None \<Rightarrow> (error_response InvalidArgument, st)
                | Some ds \<Rightarrow>
                    if map_of (datastores st) i \<noteq> None then (error_response AlreadyExists, st)
                    else (case save_inode (st\<lparr>datastores := AList.update i ds (datastores st)\<rparr>)
                                 (ds_root ds)
                                 ((create_inode st Directory (ds_root ds))\<lparr>inode_parent := None\<rparr>) of
                            (v, st1) \<Rightarrow> ([(''status'', PBool True)], st1)))))"

text \<open>
  Modelled from the spec: \<^verbatim>\<open>delete_datastore\<close>, which removes the datastore
  record.
\<close>

definition spec_delete_datastore :: "storage delete_datastore_fn" where
  "spec_delete_datastore st handle privkey =
     (case handle_id handle of
        None \<Rightarrow> (error_response InvalidArgument, st)
      | Some i \<Rightarrow>
          if map_of (datastores st) i = None then (error_response NotFound, st)
          else ([(''status'', PBool True)], st\<lparr>datastores := AList.delete i (datastores st)\<rparr>))"

section \<open>A concrete installation\<close>

text \<open>
  The values below are one installation on which the functions are evaluated: key
  functions that prefix their argument, prompts that return at once, an \<^verbatim>\<open>rmtree\<close>
  that fails, and a storage with a datastore for the key \<^verbatim>\<open>k1\<close>, a collection for
  the key \<^verbatim>\<open>k2\<close>, two devices and one local file. In \<open>stale_storage\<close> the device
  \<^verbatim>\<open>phone\<close> has recorded version 5 of the root directory of the datastore, of which
  the drivers serve version 1.
\<close>

definition demo_keys :: keys_env where
  "demo_keys = \<lparr>get_pubkey_hex = (\<lambda>k. ''pub-'' @ k), datastore_get_id = (\<lambda>k. ''id-'' @ k)\<rparr>"

definition demo_cli :: "storage cli_env" where
  "demo_cli = \<lparr>get_default_proxy = (\<lambda>st. Inr (PStr ''proxy'')),
               get_default_password = (\<lambda>st password. Inr password)\<rparr>"

definition failing_rmtree :: "storage rmtree_fn" where
  "failing_rmtree st handle path privkey = (error_response StaleData, st)"

definition demo_storage :: storage where
  "demo_storage =
     \<lparr>api_running = True,
      datastores = [(''id-pub-k1'', \<lparr>ds_type = ''datastore'', ds_root = 1, ds_drivers = [''disk'']\<rparr>),
                    (''id-pub-k2'', \<lparr>ds_type = ''collection'', ds_root = 2, ds_drivers = [''disk'']\<rparr>)],
      envelopes = [(1, \<lparr>inode_version = 1, inode_device = ''laptop'', inode_parent = None,
                         inode_payload = DirPayload []\<rparr>),
                   (2, \<lparr>inode_version = 1, inode_device = ''laptop'', inode_parent = None,
                         inode_payload = DirPayload []\<rparr>)],
      recorded = [((1, ''laptop''), 1), ((2, ''laptop''), 1)],
      tombstones = [],
      device_ids = [''laptop'', ''phone''],
      local_device = ''laptop'',
      local_files = [(''/etc/hostname'', Some ''box'')]\<rparr>"

definition stale_storage :: storage where
  "stale_storage = demo_storage\<lparr>recorded := [((1, ''laptop''), 1), ((1, ''phone''), 5),
                                              ((2, ''laptop''), 1)]\<rparr>"


text \<open>\<open>file_storage\<close> is \<open>demo_storage\<close> after \<^verbatim>\<open>hello\<close> has been put at \<^verbatim>\<open>/file1\<close>.\<close>

definition file_storage :: storage where
  "file_storage =
     snd (datastore_file_put demo_keys spec_os spec_rpc spec_putfile demo_storage ''datastore'' ''k1''
            ''/file1'' (PStr ''hello'') False False False None)"

abbreviation is_dir :: "inode \<Rightarrow> bool" where
  "is_dir i \<equiv> payload_type (inode_payload i) = Directory"


section \<open>Properties of the model\<close>

subsection \<open>Keyword calls and exceptions\<close>

lemma call_check_dir_list_proxy:
  "call_check ''datastore_dir_list'' datastore_dir_list_params 3 3 [''config_path'', ''proxy'']
     = Some (TypeError ''datastore_dir_list'')"
  by (simp add: call_check_def datastore_dir_list_params_def)

lemma call_check_file_put_collection:
  "call_check ''datastore_file_put'' datastore_file_put_params 4 4
     [''app_domain'', ''create'', ''force_data'', ''proxy'', ''config_path'',
      ''master_data_privkey'', ''password''] = Some (TypeError ''datastore_file_put'')"
  by (simp add: call_check_def datastore_file_put_params_def)

lemma call_check_file_get_collection:
  "call_check ''datastore_file_get'' datastore_file_get_params 3 3
     [''password'', ''config_path'', ''proxy''] = Some (TypeError ''datastore_file_get'')"
  by (simp add: call_check_def datastore_file_get_params_def)

lemma call_check_getinode_force:
  "call_check ''datastore_inode_getinode'' datastore_inode_getinode_params 3 3
     [''force'', ''idata'', ''device_ids'', ''config_path''] = Some (TypeError ''datastore_inode_getinode'')"
  by (simp add: call_check_def datastore_inode_getinode_params_def)


lemma call_check_file_get_cli:
  "call_check ''datastore_file_get'' datastore_file_get_params 3 3
     [''extended'', ''force'', ''device_ids'', ''config_path''] = None"
  by (simp add: call_check_def datastore_file_get_params_def)


lemma call_check_remove_datastore:
  "call_check ''_remove_datastore'' remove_datastore_params 3 3
     [''rmtree'', ''force'', ''config_path''] = None"
  by (simp add: call_check_def remove_datastore_params_def)

lemma and_then_raises: "isl (fst (and_then x s k)) = (case x of Inl e \<Rightarrow> True | Inr v \<Rightarrow> isl (fst (k v)))"
  by (simp add: and_then_def split: sum.splits)

lemma and_then_state: "(\<And>v. snd (k v) = s) \<Longrightarrow> snd (and_then x s k) = s"
  by (simp add: and_then_def split: sum.splits)

lemma listitems_raises:
  "isl (fst (cli_collection_listitems cli rpc ld ft s args pw px)) \<and> snd (cli_collection_listitems cli rpc ld ft s args pw px) = s"
  by (simp add: cli_collection_listitems_def call_check_dir_list_proxy checked_def and_then_def split: sum.splits)

lemma statitem_raises:
  "isl (fst (cli_collection_statitem cli rpc st s args px)) \<and> snd (cli_collection_statitem cli rpc st s args px) = s"
  by (simp add: cli_collection_statitem_def and_then_def split: sum.splits)

lemma putitem_raises:
  "isl (fst (cli_collection_putitem cli keys os rpc pf s args px pw fd)) \<and> snd (cli_collection_putitem cli keys os rpc pf s args px pw fd) = s"
  by (simp add: cli_collection_putitem_def call_check_file_put_collection checked_def and_then_def Let_def split: sum.splits)

lemma getitem_raises:
  "isl (fst (cli_collection_getitem cli rpc gf s args pw px)) \<and> snd (cli_collection_getitem cli rpc gf s args pw px) = s"
  by (simp add: cli_collection_getitem_def call_check_file_get_collection checked_def and_then_def split: sum.splits)

lemma getinode_raises:
  "isl (fst (cli_datastore_getinode rpc gi s args)) \<and> snd (cli_datastore_getinode rpc gi s args) = s"
  by (simp add: cli_datastore_getinode_def call_check_getinode_force checked_def and_then_def split: sum.splits option.splits)

lemma py_lower_raises: "py_lower v = Inl e \<Longrightarrow> e = AttributeError ''lower''"
  by (cases v) auto

lemma getinode_attr:
  "map_of args ''device_ids'' = Some v \<Longrightarrow> truthy v \<Longrightarrow>
   \<exists>a. cli_datastore_getinode rpc gi s args = (Inl (AttributeError a), s)"
  by (auto simp add: cli_datastore_getinode_def call_check_getinode_force checked_def and_then_def
      str_attr_def getattr_def flag_attr_def dest: py_lower_raises split: sum.splits option.splits)

subsection \<open>Versions, loading and saving\<close>

lemma foldr_max_ge: "x \<in> set xs \<Longrightarrow> x \<le> foldr max xs (0::nat)"
  by (induction xs) auto

lemma foldr_max_le: "(\<And>x. x \<in> set xs \<Longrightarrow> x \<le> b) \<Longrightarrow> foldr max xs (0::nat) \<le> b"
  by (induction xs) auto

lemma device_version_le_current:
  "d \<in> set (device_ids st) \<Longrightarrow> device_version st u d \<le> current_version st u"
  unfolding current_version_def by (rule foldr_max_ge) simp

lemma current_version_le:
  "(\<And>d. d \<in> set (device_ids st) \<Longrightarrow> device_version st u d \<le> b) \<Longrightarrow> current_version st u \<le> b"
  unfolding current_version_def by (rule foldr_max_le) auto

lemma walk_append:
  "walk st f cur (xs @ ys) = (case walk st f cur xs of Inl e \<Rightarrow> Inl e | Inr c \<Rightarrow> walk st f c ys)"
proof (induction xs arbitrary: cur)
  case Nil
  show ?case by simp
next
  case (Cons x xs)
  obtain u i where cur: "cur = (u, i)" by (cases cur)
  show ?case unfolding cur
    by (simp add: Cons.IH split: payload.splits option.splits sum.splits prod.splits)
qed

lemma load_inode_envelope: "load_inode st f u = Inr i \<Longrightarrow> map_of (envelopes st) u = Some i"
  by (auto simp: load_inode_def split: option.splits if_splits)

lemma load_inode_force: "load_inode st False u = Inr i \<Longrightarrow> load_inode st f u = Inr i"
  by (auto simp: load_inode_def split: option.splits if_splits)

lemma load_inode_unique: "load_inode st f u = Inr i \<Longrightarrow> load_inode st f' u = Inr i' \<Longrightarrow> i' = i"
  by (auto dest!: load_inode_envelope)

lemma is_dir_iff: "is_dir i = (\<exists>es. inode_payload i = DirPayload es)"
  by (cases "inode_payload i") auto

lemma walk_step_dir:
  "walk st f (u, i) (seg # segs) = Inr r \<Longrightarrow> is_dir i"
  by (auto simp: is_dir_iff split: payload.splits)

lemma walk_sim:
  assumes load_sim: "\<And>u i. load_inode st False u = Inr i \<Longrightarrow> is_dir i \<Longrightarrow> load_inode st' f' u = Inr (g u i)"
    and g_dir: "\<And>u i. is_dir i \<Longrightarrow> is_dir (g u i)"
    and g_edge: "\<And>u i es es' seg cu ct child. inode_payload i = DirPayload es \<Longrightarrow>
        inode_payload (g u i) = DirPayload es' \<Longrightarrow> load_inode st False u = Inr i \<Longrightarrow> map_of es seg = Some (cu, ct) \<Longrightarrow>
        load_inode st False cu = Inr child \<Longrightarrow> is_dir child \<Longrightarrow> map_of es' seg = Some (cu, ct)"
  shows "load_inode st False c = Inr ci \<Longrightarrow> walk st False (c, ci) segs = Inr (q, qi) \<Longrightarrow> is_dir qi \<Longrightarrow>
         walk st' f' (c, g c ci) segs = Inr (q, g q qi)"
proof (induction segs arbitrary: c ci)
  case Nil
  then show ?case by simp
next
  case (Cons seg segs)
  from Cons.prems(2) have dci: "is_dir ci" by (rule walk_step_dir)
  then obtain es where es: "inode_payload ci = DirPayload es" by (auto simp: is_dir_iff)
  from Cons.prems(2) es obtain cu ct child where
    edge: "map_of es seg = Some (cu, ct)" and ld: "load_inode st False cu = Inr child"
    and w: "walk st False (cu, child) segs = Inr (q, qi)"
    by (auto split: option.splits sum.splits)
  have dchild: "is_dir child"
  proof (cases segs)
    case Nil
    with w Cons.prems(3) show ?thesis by simp
  next
    case (Cons a list)
    with w have "walk st False (cu, child) (a # list) = Inr (q, qi)" by simp
    then show ?thesis by (rule walk_step_dir)
  qed
  from g_dir[OF dci] obtain es' where es': "inode_payload (g c ci) = DirPayload es'"
    by (auto simp: is_dir_iff)
  have edge': "map_of es' seg = Some (cu, ct)"
    by (rule g_edge[OF es es' Cons.prems(1) edge ld dchild])
  have ld': "load_inode st' f' cu = Inr (g cu child)" by (rule load_sim[OF ld dchild])
  have "walk st' f' (cu, g cu child) segs = Inr (q, g q qi)"
    by (rule Cons.IH[OF ld w Cons.prems(3)])
  with es' edge' ld' show ?case by simp
qed


lemma walk_start_dir:
  assumes "walk st f (c, ci) segs = Inr (q, qi)" and "is_dir qi"
  shows "is_dir ci"
proof (cases segs)
  case Nil
  with assms show ?thesis by simp
next
  case (Cons a list)
  from assms(1)[unfolded Cons] show ?thesis by (rule walk_step_dir)
qed

lemma save_fields:
  "save_inode st u i = (v, st') \<Longrightarrow>
   v = next_version st u \<and>
   envelopes st' = AList.update u (i\<lparr>inode_version := v, inode_device := local_device st\<rparr>) (envelopes st) \<and>
   recorded st' = AList.update (u, local_device st) v (recorded st) \<and>
   tombstones st' = tombstones st \<and> device_ids st' = device_ids st \<and>
   local_device st' = local_device st \<and> datastores st' = datastores st \<and>
   api_running st' = api_running st \<and> local_files st' = local_files st"
  by (auto simp: save_inode_def Let_def)

lemma save_device_version:
  "save_inode st u i = (v, st') \<Longrightarrow>
   device_version st' w d = (if w = u \<and> d = local_device st then v else device_version st w d)"
  by (auto simp: save_inode_def Let_def device_version_def update_conv')

lemma save_current_other:
  assumes "save_inode st u i = (v, st')" and "w \<noteq> u"
  shows "current_version st' w = current_version st w"
  using save_fields[OF assms(1)] assms(2)
  by (simp add: current_version_def save_device_version[OF assms(1)] cong: map_cong)

lemma save_current_same:
  assumes "save_inode st u i = (v, st')"
  shows "current_version st' u \<le> v"
proof (rule current_version_le)
  fix d assume "d \<in> set (device_ids st')"
  then have d: "d \<in> set (device_ids st)" using save_fields[OF assms] by simp
  have v: "v = current_version st u + 1" using save_fields[OF assms] by (simp add: next_version_def)
  show "device_version st' u d \<le> v"
    using device_version_le_current[OF d, of u] v by (simp add: save_device_version[OF assms])
qed

lemma save_tombstoned:
  "save_inode st u i = (v, st') \<Longrightarrow> is_tombstoned st' w = is_tombstoned st w"
  by (frule save_fields) (auto simp add: is_tombstoned_def)

lemma load_save_other:
  assumes "save_inode st u i = (v, st')" and "w \<noteq> u"
  shows "load_inode st' f w = load_inode st f w"
  using save_fields[OF assms(1)] assms(2)
  by (simp add: load_inode_def save_tombstoned[OF assms(1)] save_current_other[OF assms] update_conv'
      split: option.splits)

lemma load_save_same:
  assumes "save_inode st u i = (v, st')" and "f \<or> \<not> list_ex (is_tombstoned st u) (device_ids st)"
  shows "load_inode st' f u = Inr (i\<lparr>inode_version := v, inode_device := local_device st\<rparr>)"
  using save_fields[OF assms(1)] save_current_same[OF assms(1)] assms(2)
  by (auto simp add: load_inode_def save_tombstoned[OF assms(1)] update_conv')

lemma load_not_tombstoned:
  "load_inode st False u = Inr i \<Longrightarrow> \<not> list_ex (is_tombstoned st u) (device_ids st)"
  by (auto simp: load_inode_def split: option.splits if_splits)

lemma foldr_max_lt_Suc: "x \<in> set xs \<Longrightarrow> x < Suc (foldr max xs (0::nat))"
  using foldr_max_ge[of x xs] by simp

lemma fresh_envelope: "map_of (envelopes st) (fresh_uuid st) = None"
proof -
  have "fresh_uuid st \<notin> fst ` set (envelopes st)"
  proof
    assume "fresh_uuid st \<in> fst ` set (envelopes st)"
    then have "fresh_uuid st \<in> set (map fst (envelopes st) @ map (\<lambda>r. fst (fst r)) (recorded st)
                     @ map fst (tombstones st))" by auto
    from foldr_max_lt_Suc[OF this] show False by (simp add: fresh_uuid_def)
  qed
  then show ?thesis by (simp add: map_of_eq_None_iff)
qed

lemma fresh_not_tombstoned: "\<not> list_ex (is_tombstoned st (fresh_uuid st)) ds"
proof
  assume "list_ex (is_tombstoned st (fresh_uuid st)) ds"
  then obtain d where "(fresh_uuid st, d) \<in> set (tombstones st)"
    by (auto simp: list_ex_iff is_tombstoned_def)
  then have "fresh_uuid st \<in> fst ` set (tombstones st)" by force
  then have "fresh_uuid st \<in> set (map fst (envelopes st) @ map (\<lambda>r. fst (fst r)) (recorded st)
                     @ map fst (tombstones st))" by auto
  from foldr_max_lt_Suc[OF this] show False by (simp add: fresh_uuid_def)
qed


lemma walk_last:
  "segs \<noteq> [] \<Longrightarrow> walk st f cur segs =
     (case walk st f cur (butlast segs) of Inl e \<Rightarrow> Inl e | Inr c \<Rightarrow> walk st f c [last segs])"
  using walk_append[of st f cur "butlast segs" "[last segs]"] by simp

lemma resolve_via_parent:
  assumes "\<not> (ds_type ds = ''collection'' \<and> 1 < length (segments path))"
    and "segments path \<noteq> []"
    and "load_inode st f (ds_root ds) = Inr rooti"
    and "walk st f (ds_root ds, rooti) (butlast (segments path)) = Inr (p, parent)"
    and "inode_payload parent = DirPayload es"
  shows "resolve st ds f path =
           (case map_of es (last (segments path)) of
              None \<Rightarrow> Inl NotFound
            | Some (cu, ct) \<Rightarrow>
                (case load_inode st f cu of Inl e \<Rightarrow> Inl e | Inr child \<Rightarrow> Inr (cu, child)))"
  using assms by (auto simp add: resolve_def walk_last[OF assms(2)] split: option.splits sum.splits)

lemma resolve_parent_of:
  assumes "resolve st ds f path = Inr (u, i)" and "segments path \<noteq> []"
  shows "\<exists>p parent es ct. resolve_parent st ds f path = Inr ((p, parent), last (segments path)) \<and>
           inode_payload parent = DirPayload es \<and> map_of es (last (segments path)) = Some (u, ct) \<and>
           load_inode st f u = Inr i"
  using assms
  by (auto simp add: resolve_def resolve_parent_def walk_last[OF assms(2)]
      split: if_splits sum.splits payload.splits option.splits)

lemma resolve_parent_fields:
  assumes "resolve_parent st ds f path = Inr ((p, parent), leaf)"
  shows "\<not> (ds_type ds = ''collection'' \<and> 1 < length (segments path)) \<and> segments path \<noteq> [] \<and>
         leaf = last (segments path) \<and>
         (\<exists>rooti. load_inode st f (ds_root ds) = Inr rooti \<and>
            walk st f (ds_root ds, rooti) (butlast (segments path)) = Inr (p, parent))"
  using assms by (auto simp add: resolve_parent_def split: if_splits sum.splits)

lemma walk_root_sim:
  assumes load_sim: "\<And>u i. load_inode st False u = Inr i \<Longrightarrow> is_dir i \<Longrightarrow> load_inode st' f' u = Inr (g u i)"
    and g_dir: "\<And>u i. is_dir i \<Longrightarrow> is_dir (g u i)"
    and g_edge: "\<And>u i es es' seg cu ct child. inode_payload i = DirPayload es \<Longrightarrow>
        inode_payload (g u i) = DirPayload es' \<Longrightarrow> load_inode st False u = Inr i \<Longrightarrow> map_of es seg = Some (cu, ct) \<Longrightarrow>
        load_inode st False cu = Inr child \<Longrightarrow> is_dir child \<Longrightarrow> map_of es' seg = Some (cu, ct)"
    and root: "load_inode st False r = Inr ri"
    and w: "walk st False (r, ri) segs = Inr (q, qi)"
    and dq: "is_dir qi"
  shows "load_inode st' f' r = Inr (g r ri) \<and> walk st' f' (r, g r ri) segs = Inr (q, g q qi)"
proof
  have "is_dir ri" by (rule walk_start_dir[OF w dq])
  then show "load_inode st' f' r = Inr (g r ri)" by (rule load_sim[OF root])
  show "walk st' f' (r, g r ri) segs = Inr (q, g q qi)"
    by (rule walk_sim[where g = g, OF load_sim g_dir g_edge root w dq])
qed


lemma not_dir_file: "inode_payload i = FilePayload b \<Longrightarrow> \<not> is_dir i"
  by simp

lemma put_overwrite_resolves:
  assumes rp: "resolve_parent st ds False path = Inr ((p, parent), leaf)"
    and pp: "inode_payload parent = DirPayload es"
    and edge: "map_of es leaf = Some (cu, ct)"
    and ld: "load_inode st False cu = Inr child"
    and isfile: "inode_payload child = FilePayload b"
    and sv: "save_inode st cu (child\<lparr>inode_payload := FilePayload bytes\<rparr>) = (v, st')"
  shows "resolve st' ds f path =
           Inr (cu, child\<lparr>inode_payload := FilePayload bytes, inode_version := v,
                          inode_device := local_device st\<rparr>)"
proof -
  from resolve_parent_fields[OF rp] obtain rooti where
    coll: "\<not> (ds_type ds = ''collection'' \<and> 1 < length (segments path))"
    and ne: "segments path \<noteq> []" and leaf: "leaf = last (segments path)"
    and root: "load_inode st False (ds_root ds) = Inr rooti"
    and w: "walk st False (ds_root ds, rooti) (butlast (segments path)) = Inr (p, parent)"
    by blast
  have dp: "is_dir parent" using pp by simp
  have sim: "load_inode st' f u = Inr i" if "load_inode st False u = Inr i" and "is_dir i" for u i
  proof -
    have "u \<noteq> cu" using that ld isfile by (auto dest: not_dir_file)
    then show ?thesis using load_save_other[OF sv, of u f] load_inode_force[OF that(1)] by simp
  qed
  have "load_inode st' f (ds_root ds) = Inr rooti \<and>
        walk st' f (ds_root ds, rooti) (butlast (segments path)) = Inr (p, parent)"
    by (rule walk_root_sim[where g = "\<lambda>u i. i", OF sim _ _ root w dp]) auto
  moreover have "load_inode st' f cu = Inr (child\<lparr>inode_payload := FilePayload bytes, inode_version := v,
                          inode_device := local_device st\<rparr>)"
    using load_save_same[OF sv, of f] load_not_tombstoned[OF ld] by simp
  ultimately show ?thesis
    using resolve_via_parent[OF coll ne _ _ pp, of st' f rooti p] edge leaf by simp
qed

lemma put_create_resolves:
  assumes rp: "resolve_parent st ds False path = Inr ((p, parent), leaf)"
    and pp: "inode_payload parent = DirPayload es"
    and edge: "map_of es leaf = None"
    and sv1: "save_inode st (fresh_uuid st) ((create_inode st File p)\<lparr>inode_payload := FilePayload bytes\<rparr>) = (v, st1)"
    and sv2: "save_inode st1 p (parent\<lparr>inode_payload := DirPayload (AList.update leaf (fresh_uuid st, File) es)\<rparr>) = (pv, st')"
  shows "resolve st' ds f path =
           Inr (fresh_uuid st, (create_inode st File p)\<lparr>inode_payload := FilePayload bytes, inode_version := v,
                          inode_device := local_device st\<rparr>)"
proof -
  let ?cu = "fresh_uuid st"
  let ?parent' = "parent\<lparr>inode_payload := DirPayload (AList.update leaf (?cu, File) es),
                         inode_version := pv, inode_device := local_device st1\<rparr>"
  let ?g = "\<lambda>u i. if u = p then ?parent' else i"
  from resolve_parent_fields[OF rp] obtain rooti where
    coll: "\<not> (ds_type ds = ''collection'' \<and> 1 < length (segments path))"
    and ne: "segments path \<noteq> []" and leaf: "leaf = last (segments path)"
    and root: "load_inode st False (ds_root ds) = Inr rooti"
    and w: "walk st False (ds_root ds, rooti) (butlast (segments path)) = Inr (p, parent)"
    by blast
  have dp: "is_dir parent" using pp by simp
  have lp: "load_inode st False p = Inr parent"
  proof (cases "butlast (segments path)")
    case Nil
    with w root show ?thesis by simp
  next
    case (Cons a list)
    have "\<And>c. walk st False c (butlast (segments path)) = Inr (p, parent) \<Longrightarrow> load_inode st False p = Inr parent"
      unfolding Cons
    proof (induction list arbitrary: a)
      case Nil
      then show ?case by (cases c) (auto split: payload.splits option.splits sum.splits)
    next
      case (Cons b list)
      then show ?case by (cases c) (auto split: payload.splits option.splits sum.splits)
    qed
    from this[OF w] show ?thesis .
  qed
  have pcu: "p \<noteq> ?cu" using load_inode_envelope[OF lp] fresh_envelope[of st] by auto
  have tomb1: "\<not> list_ex (is_tombstoned st1 p) (device_ids st1)"
    using load_not_tombstoned[OF lp] save_fields[OF sv1] by (simp add: save_tombstoned[OF sv1])
  have sim: "load_inode st' f u = Inr (?g u i)" if l: "load_inode st False u = Inr i" and "is_dir i" for u i
  proof (cases "u = p")
    case True
    with l lp have "i = parent" by simp
    then show ?thesis using True load_save_same[OF sv2, of f] tomb1 by simp
  next
    case False
    have "u \<noteq> ?cu" using load_inode_envelope[OF l] fresh_envelope[of st] by auto
    then show ?thesis
      using False load_save_other[OF sv2, of u f] load_save_other[OF sv1, of u f] load_inode_force[OF l]
      by simp
  qed
  have gdir: "is_dir (?g u i)" if "is_dir i" for u i using that by simp
  have gedge: "map_of es' seg = Some (c, ct)"
    if "inode_payload i = DirPayload es0" "inode_payload (?g u i) = DirPayload es'"
      "load_inode st False u = Inr i" "map_of es0 seg = Some (c, ct)" for u i es0 es' seg c ct
  proof (cases "u = p")
    case True
    with that(3) lp have "i = parent" by simp
    with that pp edge True show ?thesis by (auto simp: update_conv')
  next
    case False
    with that show ?thesis by simp
  qed
  have "load_inode st' f (ds_root ds) = Inr (?g (ds_root ds) rooti) \<and>
        walk st' f (ds_root ds, ?g (ds_root ds) rooti) (butlast (segments path)) = Inr (p, ?g p parent)"
    by (rule walk_root_sim[where g = ?g, OF sim gdir gedge root w dp])
  moreover have "load_inode st' f ?cu = Inr ((create_inode st File p)\<lparr>inode_payload := FilePayload bytes, inode_version := v,
                          inode_device := local_device st\<rparr>)"
    using load_save_same[OF sv1, of f] fresh_not_tombstoned[of st] load_save_other[OF sv2, of ?cu f] pcu
    by simp
  moreover have "inode_payload (?g p parent) = DirPayload (AList.update leaf (?cu, File) es)" by simp
  ultimately show ?thesis
    using resolve_via_parent[OF coll ne, of st' f "?g (ds_root ds) rooti" p "?g p parent"] leaf
    by (simp add: update_conv')
qed


lemma walk_end_loaded:
  "walk st f (c, ci) segs = Inr (q, qi) \<Longrightarrow> load_inode st f c = Inr ci \<Longrightarrow> load_inode st f q = Inr qi"
  by (induction segs arbitrary: c ci) (auto split: payload.splits option.splits sum.splits)

lemma putfile_cases:
  assumes "putfile st ds force path bytes create = (Inr (u, v), st')"
  obtains (overwrite) p parent leaf es ct child b where
      "resolve_parent st ds force path = Inr ((p, parent), leaf)" "inode_payload parent = DirPayload es"
      "map_of es leaf = Some (u, ct)" "\<not> create" "load_inode st force u = Inr child"
      "inode_payload child = FilePayload b"
      "save_inode st u (child\<lparr>inode_payload := FilePayload bytes\<rparr>) = (v, st')"
  | (new) p parent leaf es st1 pv where
      "resolve_parent st ds force path = Inr ((p, parent), leaf)" "inode_payload parent = DirPayload es"
      "map_of es leaf = None" "u = fresh_uuid st"
      "save_inode st (fresh_uuid st) ((create_inode st File p)\<lparr>inode_payload := FilePayload bytes\<rparr>) = (v, st1)"
      "save_inode st1 p (parent\<lparr>inode_payload := DirPayload (AList.update leaf (fresh_uuid st, File) es)\<rparr>) = (pv, st')"
  using assms
  by (auto simp add: putfile_def Let_def split: sum.splits prod.splits payload.splits option.splits if_splits)

lemma put_resolves:
  assumes put: "putfile st ds False path bytes create = (Inr (u, v), st')"
  shows "\<exists>i. resolve st' ds f path = Inr (u, i) \<and> inode_payload i = FilePayload bytes \<and> inode_version i = v"
    and "device_version st' u (local_device st') = v"
    and "datastores st' = datastores st \<and> api_running st' = api_running st \<and>
         device_ids st' = device_ids st \<and> local_device st' = local_device st \<and>
         local_files st' = local_files st \<and> tombstones st' = tombstones st"
proof -
  from put have "(\<exists>i. resolve st' ds f path = Inr (u, i) \<and> inode_payload i = FilePayload bytes \<and> inode_version i = v)
    \<and> device_version st' u (local_device st') = v
    \<and> (datastores st' = datastores st \<and> api_running st' = api_running st \<and>
         device_ids st' = device_ids st \<and> local_device st' = local_device st \<and>
         local_files st' = local_files st \<and> tombstones st' = tombstones st)"
  proof (cases rule: putfile_cases)
    case (overwrite p parent leaf es ct child b)
    from put_overwrite_resolves[OF overwrite(1,2,3,5,6,7), of f]
    show ?thesis using save_fields[OF overwrite(7)] save_device_version[OF overwrite(7), of u "local_device st"]
      by simp
  next
    case (new p parent leaf es st1 pv)
    have lp: "load_inode st False p = Inr parent"
      using resolve_parent_fields[OF new(1)] walk_end_loaded by blast
    have pcu: "fresh_uuid st \<noteq> p" using load_inode_envelope[OF lp] fresh_envelope[of st] by auto
    from put_create_resolves[OF new(1,2,3,5,6), of f]
    show ?thesis
      using save_fields[OF new(5)] save_fields[OF new(6)] new(4) pcu
        save_device_version[OF new(5), of u "local_device st"]
        save_device_version[OF new(6), of u "local_device st"]
      by simp
  qed
  then show "\<exists>i. resolve st' ds f path = Inr (u, i) \<and> inode_payload i = FilePayload bytes \<and> inode_version i = v"
    and "device_version st' u (local_device st') = v"
    and "datastores st' = datastores st \<and> api_running st' = api_running st \<and>
         device_ids st' = device_ids st \<and> local_device st' = local_device st \<and>
         local_files st' = local_files st \<and> tombstones st' = tombstones st"
    by blast+
qed


lemma walk_force: "walk st False c segs = Inr r \<Longrightarrow> walk st f c segs = Inr r"
proof (induction segs arbitrary: c)
  case Nil
  then show ?case by simp
next
  case (Cons seg segs)
  obtain u i where c: "c = (u, i)" by (cases c)
  from Cons.prems[unfolded c] obtain es cu ct child where
    es: "inode_payload i = DirPayload es" and edge: "map_of es seg = Some (cu, ct)"
    and ld: "load_inode st False cu = Inr child" and w: "walk st False (cu, child) segs = Inr r"
    by (auto split: payload.splits option.splits sum.splits)
  from load_inode_force[OF ld, of f] Cons.IH[OF w] es edge show ?case unfolding c by simp
qed

lemma resolve_parent_force:
  assumes "resolve_parent st ds False path = Inr r"
  shows "resolve_parent st ds f path = Inr r"
proof -
  obtain p parent leaf where r: "r = ((p, parent), leaf)" by (cases r) auto
  from resolve_parent_fields[OF assms[unfolded r]] obtain rooti where
    1: "\<not> (ds_type ds = ''collection'' \<and> 1 < length (segments path))" "segments path \<noteq> []"
      "leaf = last (segments path)" "load_inode st False (ds_root ds) = Inr rooti"
      "walk st False (ds_root ds, rooti) (butlast (segments path)) = Inr (p, parent)" by blast
  from load_inode_force[OF 1(4), of f] walk_force[OF 1(5), of f] 1(1,2,3) show ?thesis
    unfolding r by (simp add: resolve_parent_def)
qed


lemma current_version_cong:
  "recorded st' = recorded st \<Longrightarrow> device_ids st' = device_ids st \<Longrightarrow>
   current_version st' = current_version st"
  by (rule ext) (simp add: current_version_def device_version_def cong: map_cong)

lemma load_tombstone_other:
  assumes "w \<noteq> u"
  shows "load_inode (st\<lparr>tombstones := make_tombstones u ds @ tombstones st\<rparr>) f w = load_inode st f w"
proof -
  let ?st = "st\<lparr>tombstones := make_tombstones u ds @ tombstones st\<rparr>"
  have 1: "current_version ?st = current_version st" by (rule current_version_cong) simp_all
  have 2: "is_tombstoned ?st w = is_tombstoned st w"
    using assms by (intro ext) (auto simp add: is_tombstoned_def make_tombstones_def)
  show ?thesis by (simp add: load_inode_def 1 2 split: option.splits)
qed

lemma load_tamper:
  assumes "map_of es w = map_of (envelopes st) w"
  shows "load_inode (st\<lparr>envelopes := es\<rparr>) f w = load_inode st f w"
proof -
  let ?st = "st\<lparr>envelopes := es\<rparr>"
  have 1: "current_version ?st = current_version st" by (rule current_version_cong) simp_all
  have 2: "is_tombstoned ?st w = is_tombstoned st w" by (intro ext) (simp add: is_tombstoned_def)
  show ?thesis using assms by (simp add: load_inode_def 1 2 split: option.splits)
qed


lemma deletefile_cases:
  assumes "deletefile st ds force path = (Inr d, st')"
  obtains p parent leaf es ct child b pv where
      "resolve_parent st ds force path = Inr ((p, parent), leaf)" "inode_payload parent = DirPayload es"
      "map_of es leaf = Some (d, ct)" "load_inode st force d = Inr child"
      "inode_payload child = FilePayload b"
      "save_inode (st\<lparr>tombstones := make_tombstones d (device_ids st) @ tombstones st\<rparr>) p
         (parent\<lparr>inode_payload := DirPayload (AList.delete leaf es)\<rparr>) = (pv, st')"
proof -
  from assms obtain p parent leaf where rp: "resolve_parent st ds force path = Inr ((p, parent), leaf)"
    by (cases "resolve_parent st ds force path") (auto simp add: deletefile_def)
  from assms rp obtain es where pp: "inode_payload parent = DirPayload es"
    by (cases "inode_payload parent") (auto simp add: deletefile_def)
  from assms rp pp obtain cu ct where edge: "map_of es leaf = Some (cu, ct)"
    by (cases "map_of es leaf") (auto simp add: deletefile_def)
  from assms rp pp edge obtain child where ld: "load_inode st force cu = Inr child"
    by (cases "load_inode st force cu") (auto simp add: deletefile_def)
  from assms rp pp edge ld obtain b where fl: "inode_payload child = FilePayload b"
    by (cases "inode_payload child") (auto simp add: deletefile_def)
  from assms rp pp edge ld fl obtain pv where
    "save_inode (st\<lparr>tombstones := make_tombstones cu (device_ids st) @ tombstones st\<rparr>) p
         (parent\<lparr>inode_payload := DirPayload (AList.delete leaf es)\<rparr>) = (pv, st')" and "d = cu"
    by (auto simp add: deletefile_def split: prod.splits)
  with rp pp edge ld fl show ?thesis using that by blast
qed

lemma delete_then_resolve:
  assumes res: "resolve st ds False path = Inr (u, i)"
    and isfile: "inode_payload i = FilePayload b"
    and del: "deletefile st ds force path = (Inr d, st')"
    and tamper: "\<And>w. w \<noteq> u \<Longrightarrow> map_of es w = map_of (envelopes st') w"
  shows "resolve (st'\<lparr>envelopes := es\<rparr>) ds f path = Inl NotFound"
proof -
  from deletefile_cases[OF del] obtain p parent leaf es0 ct pv where
    rp: "resolve_parent st ds force path = Inr ((p, parent), leaf)"
    and pp: "inode_payload parent = DirPayload es0"
    and edge: "map_of es0 leaf = Some (d, ct)"
    and sv: "save_inode (st\<lparr>tombstones := make_tombstones d (device_ids st) @ tombstones st\<rparr>) p
         (parent\<lparr>inode_payload := DirPayload (AList.delete leaf es0)\<rparr>) = (pv, st')"
    by metis
  let ?stT = "st\<lparr>tombstones := make_tombstones d (device_ids st) @ tombstones st\<rparr>"
  let ?st'' = "st'\<lparr>envelopes := es\<rparr>"
  let ?parent' = "parent\<lparr>inode_payload := DirPayload (AList.delete leaf es0),
                         inode_version := pv, inode_device := local_device st\<rparr>"
  let ?g = "\<lambda>w wi. if w = p then ?parent' else wi"
  from resolve_parent_fields[OF rp] have ne: "segments path \<noteq> []"
    and coll: "\<not> (ds_type ds = ''collection'' \<and> 1 < length (segments path))"
    and leaf: "leaf = last (segments path)" by blast+
  from resolve_parent_of[OF res ne] obtain p0 parent0 es1 ct1 where
    rp0: "resolve_parent st ds False path = Inr ((p0, parent0), last (segments path))"
    and pp0: "inode_payload parent0 = DirPayload es1"
    and edge0: "map_of es1 (last (segments path)) = Some (u, ct1)"
    and lu: "load_inode st False u = Inr i" by blast
  from resolve_parent_force[OF rp0, of force] rp have same: "p0 = p" "parent0 = parent" by auto
  with pp pp0 edge edge0 leaf have du: "d = u" by simp
  from resolve_parent_fields[OF rp0] same obtain rooti where
    root: "load_inode st False (ds_root ds) = Inr rooti"
    and w: "walk st False (ds_root ds, rooti) (butlast (segments path)) = Inr (p, parent)"
    by blast
  have lp: "load_inode st False p = Inr parent" by (rule walk_end_loaded[OF w root])
  have dp: "is_dir parent" using pp by simp
  have pu: "p \<noteq> u" using lp lu dp isfile by (auto dest: not_dir_file)
  have tombp: "\<not> list_ex (is_tombstoned ?stT p) (device_ids ?stT)"
    using load_not_tombstoned[OF lp] pu du
    by (auto simp add: is_tombstoned_def make_tombstones_def list_ex_iff)
  have sim: "load_inode ?st'' f w = Inr (?g w wi)" if l: "load_inode st False w = Inr wi" and d: "is_dir wi" for w wi
  proof -
    have wu: "w \<noteq> u" using l lu d isfile by (auto dest: not_dir_file)
    have 1: "load_inode ?st'' f w = load_inode st' f w" by (rule load_tamper) (rule tamper[OF wu])
    show ?thesis
    proof (cases "w = p")
      case True
      with l lp have "wi = parent" by simp
      then show ?thesis using 1 True load_save_same[OF sv, of f] tombp by simp
    next
      case False
      then show ?thesis
        using 1 load_save_other[OF sv, of w f] load_tombstone_other[where w = w and u = d and st = st and ds = "device_ids st" and f = f] wu du
          load_inode_force[OF l, of f]
        by simp
    qed
  qed
  have gdir: "is_dir (?g w wi)" if "is_dir wi" for w wi using that by simp
  have gedge: "map_of es' seg = Some (c, t)"
    if "inode_payload wi = DirPayload es2" "inode_payload (?g w wi) = DirPayload es'"
      "load_inode st False w = Inr wi" "map_of es2 seg = Some (c, t)"
      "load_inode st False c = Inr child" "is_dir child" for w wi es2 es' seg c t child
  proof (cases "w = p")
    case True
    with that(3) lp have wi: "wi = parent" by simp
    have "seg \<noteq> leaf"
    proof
      assume "seg = leaf"
      with that(1,4) wi pp edge du have "c = u" by simp
      with that(5,6) lu isfile show False by (auto dest: not_dir_file)
    qed
    with that wi pp True show ?thesis by (auto simp: delete_conv')
  next
    case False
    with that show ?thesis by simp
  qed
  have "load_inode ?st'' f (ds_root ds) = Inr (?g (ds_root ds) rooti) \<and>
        walk ?st'' f (ds_root ds, ?g (ds_root ds) rooti) (butlast (segments path)) = Inr (p, ?g p parent)"
    by (rule walk_root_sim[where g = ?g, OF sim gdir gedge root w dp])
  moreover have "inode_payload (?g p parent) = DirPayload (AList.delete leaf es0)" by simp
  ultimately show ?thesis
    using resolve_via_parent[OF coll ne, of ?st'' f "?g (ds_root ds) rooti" p "?g p parent"] leaf
    by (simp add: delete_conv')
qed

lemma map_filter_str_of: "List.map_filter str_of (map PStr xs) = xs"
  by (induction xs) (simp_all add: List.map_filter_simps)

lemma datastore_of_to_dict: "datastore_of_dict (datastore_to_dict datastore_id ds) = Some ds"
  by (simp add: datastore_to_dict_def map_filter_str_of list_all_iff)

lemma error_response_has_error: "has_key (error_response e) ''error''"
  by (simp add: error_response_def has_key_def)

lemma error_response_has_errno: "has_key (error_response e) ''errno''"
  by (simp add: error_response_def has_key_def)

lemma spec_get_found:
  "map_of (datastores st) i = Some ds \<Longrightarrow>
   backend_datastore_get spec_rpc st i devs =
     ([(''status'', PBool True), (''datastore'', datastore_to_dict i ds)], st)"
  by (simp add: spec_rpc_def)

lemma spec_get_missing:
  "map_of (datastores st) i = None \<Longrightarrow>
   backend_datastore_get spec_rpc st i devs = (error_response NotFound, st)"
  by (simp add: spec_rpc_def)

lemma subscript_type: "subscript (datastore_to_dict i ds) ''type'' = Inr (PStr (ds_type ds))"
  by (simp add: datastore_to_dict_def get_item_def)

lemma file_get_spec:
  "datastore_file_get spec_rpc spec_getfile st ty i path ext force devs =
     (if \<not> api_running st then (Inr api_not_running, st)
      else (case map_of (datastores st) i of
              None \<Rightarrow> (Inr (error_response NotFound), st)
            | Some ds \<Rightarrow>
                if ds_type ds \<noteq> ty then (Inr [(''error'', PStr (is_a i (PStr (ds_type ds))))], st)
                else (case getfile st ds force path of
                        Inl e \<Rightarrow> (Inr (error_response e), st)
                      | Inr (u, ino) \<Rightarrow>
                          (Inr [(''status'', PBool True), (''file'', PDict (inode_to_dict u ino True))], st))))"
proof (cases "map_of (datastores st) i")
  case None
  show ?thesis
    by (simp add: datastore_file_get_def spec_get_missing[OF None] None error_response_has_error
        error_response_has_errno) (simp add: spec_rpc_def)
next
  case (Some ds)
  show ?thesis
    by (simp add: datastore_file_get_def spec_get_found[OF Some] Some has_key_def get_item_def
        subscript_type spec_getfile_def datastore_of_to_dict split: sum.splits prod.splits)
      (simp add: spec_rpc_def)
qed



lemma spec_connect: "local_api_connect spec_rpc st = api_running st"
  by (simp add: spec_rpc_def)

lemma str_of_Some: "str_of v = Some s \<Longrightarrow> v = PStr s"
  by (cases v) auto

lemma api_not_running_error: "has_key api_not_running ''error''"
  by (simp add: api_not_running_def has_key_def)

lemma spec_putfile_success:
  assumes "spec_putfile st (datastore_to_dict i ds) path data pk create = (res, st')"
    and "\<not> has_key res ''error''"
  shows "\<exists>bytes u v. data = PStr bytes \<and> putfile st ds False path bytes create = (Inr (u, v), st')"
proof -
  obtain bytes where b: "str_of data = Some bytes"
    using assms by (cases "str_of data") (auto simp add: spec_putfile_def datastore_of_to_dict error_response_has_error)
  obtain r st1 where p: "putfile st ds False path bytes create = (r, st1)" by (cases "putfile st ds False path bytes create")
  show ?thesis
  proof (cases r)
    case (Inl e)
    with assms b p error_response_has_error[of e] show ?thesis
      by (auto simp add: spec_putfile_def datastore_of_to_dict)
  next
    case (Inr w)
    with assms b p have "st1 = st'" by (simp add: spec_putfile_def datastore_of_to_dict)
    with Inr p str_of_Some[OF b] show ?thesis by (cases w) auto
  qed
qed

lemma file_put_success:
  assumes put: "datastore_file_put keys spec_os spec_rpc spec_putfile st ty pk path data create fd force devs = (Inr res, st')"
    and ok: "\<not> has_key res ''error''"
  shows "\<exists>ds bytes u v. api_running st \<and>
           map_of (datastores st) (datastore_get_id keys (get_pubkey_hex keys pk)) = Some ds \<and>
           putfile st ds False path bytes create = (Inr (u, v), st') \<and>
           (if is_valid_path data \<and> os_path_exists spec_os st (pystr data) \<and> \<not> fd
            then read_file spec_os st (pystr data) = Some bytes else data = PStr bytes)"
proof -
  let ?i = "datastore_get_id keys (get_pubkey_hex keys pk)"
  let ?sub = "is_valid_path data \<and> os_path_exists spec_os st (pystr data) \<and> \<not> fd"
  let ?data1 = "if ?sub then (case read_file spec_os st (pystr data) of Some c \<Rightarrow> PStr c | None \<Rightarrow> PNone) else data"
  have readable: "?sub \<Longrightarrow> read_file spec_os st (pystr data) \<noteq> None"
    using put ok by (cases "read_file spec_os st (pystr data)")
      (auto simp add: datastore_file_put_def Let_def has_key_def)
  have run: "api_running st"
    using put ok readable api_not_running_error
    by (auto simp add: datastore_file_put_def Let_def spec_connect split: if_splits option.splits)
  obtain ds where ds: "map_of (datastores st) ?i = Some ds"
    using put ok readable run error_response_has_error
    by (cases "map_of (datastores st) ?i")
      (auto simp add: datastore_file_put_def Let_def spec_connect spec_get_missing split: if_splits option.splits)
  have "spec_putfile st (datastore_to_dict ?i ds) path ?data1 pk create = (res, st')"
    using put readable run
    by (auto simp add: datastore_file_put_def Let_def spec_connect spec_get_found[OF ds] has_key_def get_item_def
        split: if_splits option.splits prod.splits)
  from spec_putfile_success[OF this ok] obtain bytes u v where
    d1: "?data1 = PStr bytes" and p: "putfile st ds False path bytes create = (Inr (u, v), st')" by blast
  have "if ?sub then read_file spec_os st (pystr data) = Some bytes else data = PStr bytes"
    using d1 readable by (auto split: if_splits option.splits)
  with run ds p show ?thesis by blast
qed

subsection \<open>The entry points over the storage operations\<close>

lemma cli_getfile_plain:
  "cli_datastore_getfile rpc gf s [(''datastore_id'', PStr i), (''path'', PStr p)]
     = datastore_file_get rpc gf s ''datastore'' i p False False None"
  by (simp add: cli_datastore_getfile_def and_then_def checked_def str_attr_def getattr_def
      flag_attr_def csv_attr_def call_check_file_get_cli)



lemma file_get_success:
  assumes "datastore_file_get spec_rpc spec_getfile st ty i path ext force devs
             = (Inr [(''status'', PBool True), (''file'', PDict file)], st')"
  shows "\<exists>ds u ino. api_running st \<and> map_of (datastores st) i = Some ds \<and> ds_type ds = ty \<and>
           getfile st ds force path = Inr (u, ino) \<and> file = inode_to_dict u ino True"
  using assms
  by (auto simp add: file_get_spec api_not_running_def error_response_def
      split: if_splits option.splits sum.splits)

lemma spec_deletefile_success:
  assumes "spec_deletefile st (datastore_to_dict i ds) path pk force = (res, st')"
    and "\<not> has_key res ''error''"
  shows "\<exists>d. deletefile st ds force path = (Inr d, st')"
proof -
  obtain r st1 where p: "deletefile st ds force path = (r, st1)" by (cases "deletefile st ds force path")
  show ?thesis
  proof (cases r)
    case (Inl e)
    with assms p error_response_has_error[of e] show ?thesis
      by (auto simp add: spec_deletefile_def datastore_of_to_dict)
  next
    case (Inr d)
    with assms p show ?thesis by (auto simp add: spec_deletefile_def datastore_of_to_dict)
  qed
qed

lemma set_item_has_key: "has_key (set_item d k v) k"
  by (simp add: has_key_def set_item_def update_conv')

lemma cli_deletefile_success:
  assumes del: "cli_datastore_deletefile keys spec_rpc spec_deletefile st args = (Inr res, st')"
    and ok: "\<not> has_key res ''error''"
    and path: "str_attr args ''path'' = Inr path" and pk: "str_attr args ''privkey'' = Inr pk"
  shows "\<exists>ds d. api_running st \<and>
           map_of (datastores st) (datastore_get_id keys (get_pubkey_hex keys pk)) = Some ds \<and>
           deletefile st ds (str_flag args ''force'' [''1'', ''true'']) path = (Inr d, st')"
proof -
  let ?i = "datastore_get_id keys (get_pubkey_hex keys pk)"
  let ?force = "str_flag args ''force'' [''1'', ''true'']"
  obtain devs where c: "csv_attr args ''device_ids'' = Inr devs"
    using del path pk by (cases "csv_attr args ''device_ids''")
      (auto simp add: cli_datastore_deletefile_def and_then_def Let_def)
  have run: "api_running st"
    using del ok path pk c api_not_running_error
    by (auto simp add: cli_datastore_deletefile_def and_then_def Let_def spec_connect split: if_splits)
  obtain ds where ds: "map_of (datastores st) ?i = Some ds"
  proof (cases "map_of (datastores st) ?i")
    case None
    have "has_key (set_item (error_response NotFound) ''errno'' (PInt EPERM)) ''error''"
      by (simp add: has_key_def set_item_def update_conv' error_response_def)
    with del ok path pk c run None show ?thesis
      by (auto simp add: cli_datastore_deletefile_def and_then_def Let_def spec_connect spec_get_missing
          error_response_has_error)
  next
    case (Some ds)
    then show ?thesis using that by blast
  qed
  have "spec_deletefile st (datastore_to_dict ?i ds) path pk ?force = (res, st')"
    using del path pk c run
    by (auto simp add: cli_datastore_deletefile_def and_then_def Let_def spec_connect spec_get_found[OF ds]
        has_key_def get_item_def split: prod.splits)
  from spec_deletefile_success[OF this ok] run ds show ?thesis by blast
qed

lemma deletefile_frame:
  assumes "deletefile st ds force path = (Inr d, st')"
  shows "datastores st' = datastores st \<and> api_running st' = api_running st"
proof -
  from deletefile_cases[OF assms] obtain p parent leaf es pv where
    "save_inode (st\<lparr>tombstones := make_tombstones d (device_ids st) @ tombstones st\<rparr>) p
         (parent\<lparr>inode_payload := DirPayload (AList.delete leaf es)\<rparr>) = (pv, st')"
    by metis
  from save_fields[OF this] show ?thesis by simp
qed

lemma getfile_file:
  "getfile st ds f path = Inr (u, ino) \<Longrightarrow>
   resolve st ds f path = Inr (u, ino) \<and> (\<exists>b. inode_payload ino = FilePayload b)"
  by (auto simp add: getfile_def split: sum.splits payload.splits)

lemma inode_to_dict_uuid: "map_of (inode_to_dict u ino idata) ''uuid'' = Some (PInt (int u))"
  by (simp add: inode_to_dict_def)

lemma inode_to_dict_idata:
  "map_of (inode_to_dict u ino True) ''idata'' = Some (payload_to_val (inode_payload ino))"
  by (simp add: inode_to_dict_def)



section \<open>The claims\<close>

text \<open>
  C1. Every exposed datastore or collection operation returns a result object and never
  terminates by raising an exception. The four collection entry points do raise, for
  every environment, state and argument namespace: \<open>cli_collection_listitems\<close>,
  \<open>cli_collection_putitem\<close> and \<open>cli_collection_getitem\<close> pass keyword arguments
  that the called function does not have, and \<open>cli_collection_statitem\<close> reads an
  unassigned local variable.
\<close>

theorem collection_entry_points_raise:
  "isl (fst (cli_collection_listitems cli rpc datastore_listdir file_type s args password proxy)) \<and>
   isl (fst (cli_collection_statitem cli rpc datastore_stat s args proxy)) \<and>
   isl (fst (cli_collection_putitem cli keys os rpc datastore_putfile s args proxy password force_data)) \<and>
   isl (fst (cli_collection_getitem cli rpc datastore_getfile s args password proxy))"
  by (simp add: listitems_raises statitem_raises putitem_raises getitem_raises)

theorem collection_entry_points_raise_witness:
  "isl (fst (cli_collection_listitems demo_cli spec_rpc spec_listdir (PStr ''file'') demo_storage
               [(''collection_domain'', PStr ''id-pub-k2''), (''path'', PStr ''/'')] PNone PNone)) \<and>
   isl (fst (cli_collection_statitem demo_cli spec_rpc spec_stat demo_storage
               [(''collection_id'', PStr ''id-pub-k2''), (''item_id'', PStr ''item'')] PNone)) \<and>
   isl (fst (cli_collection_putitem demo_cli demo_keys spec_os spec_rpc spec_putfile demo_storage
               [(''collection_domain'', PStr ''id-pub-k2''), (''item_id'', PStr ''item''),
                (''data'', PStr ''hello''), (''collection_privkey'', PStr ''k2'')] PNone PNone False)) \<and>
   isl (fst (cli_collection_getitem demo_cli spec_rpc spec_getfile demo_storage
               [(''collection_domain'', PStr ''id-pub-k2''), (''item_id'', PStr ''item'')] PNone PNone)) \<and>
   cli_collection_listitems demo_cli spec_rpc spec_listdir (PStr ''file'') demo_storage
     [(''collection_domain'', PStr ''id-pub-k2''), (''path'', PStr ''/'')] PNone PNone
     = (Inl (TypeError ''datastore_dir_list''), demo_storage) \<and>
   cli_collection_statitem demo_cli spec_rpc spec_stat demo_storage
     [(''collection_id'', PStr ''id-pub-k2''), (''item_id'', PStr ''item'')] PNone
     = (Inl (UnboundLocalError ''password''), demo_storage) \<and>
   cli_collection_putitem demo_cli demo_keys spec_os spec_rpc spec_putfile demo_storage
     [(''collection_domain'', PStr ''id-pub-k2''), (''item_id'', PStr ''item''),
      (''data'', PStr ''hello''), (''collection_privkey'', PStr ''k2'')] PNone PNone False
     = (Inl (TypeError ''datastore_file_put''), demo_storage) \<and>
   cli_collection_getitem demo_cli spec_rpc spec_getfile demo_storage
     [(''collection_domain'', PStr ''id-pub-k2''), (''item_id'', PStr ''item'')] PNone PNone
     = (Inl (TypeError ''datastore_file_get''), demo_storage)"
  using collection_entry_points_raise
    [where cli = demo_cli and rpc = spec_rpc and datastore_listdir = spec_listdir
       and file_type = "PStr ''file''" and s = demo_storage and password = PNone and proxy = PNone
       and force_data = False and keys = demo_keys and os = spec_os
       and datastore_putfile = spec_putfile and datastore_getfile = spec_getfile
       and datastore_stat = spec_stat]
  by (simp add: cli_collection_listitems_def cli_collection_statitem_def cli_collection_putitem_def
      cli_collection_getitem_def and_then_def checked_def default_proxy_def demo_cli_def
      str_attr_def getattr_def call_check_dir_list_proxy call_check_file_put_collection
      call_check_file_get_collection)


text \<open>
  C9. When the namespace carries a non-empty \<^verbatim>\<open>device_ids\<close>,
  \<open>cli_datastore_getinode\<close> raises AttributeError and leaves the state as it is: no
  call reaches the backend. When the attributes read before it are well formed, the
  exception is that of \<^verbatim>\<open>None.split\<close>.
\<close>

theorem getinode_device_ids_raises:
  assumes "map_of args ''device_ids'' = Some v" and "truthy v"
  shows "(\<exists>a. cli_datastore_getinode rpc datastore_getinode s args = (Inl (AttributeError a), s)) \<and>
         (\<forall>d u f i. str_attr args ''datastore_id'' = Inr d \<and> str_attr args ''inode_uuid'' = Inr u \<and>
              flag_attr args ''force'' [''1'', ''true''] = Inr f \<and>
              flag_attr args ''idata'' [''1'', ''true''] = Inr i \<longrightarrow>
            cli_datastore_getinode rpc datastore_getinode s args = (Inl (AttributeError ''split''), s))"
  using assms getinode_attr[OF assms, of rpc datastore_getinode s]
  by (auto simp add: cli_datastore_getinode_def and_then_def)

theorem getinode_device_ids_raises_witness:
  "map_of [(''datastore_id'', PStr ''id-pub-k1''), (''inode_uuid'', PStr ''1''),
           (''device_ids'', PStr ''laptop,phone'')] ''device_ids'' = Some (PStr ''laptop,phone'') \<and>
   truthy (PStr ''laptop,phone'') \<and>
   cli_datastore_getinode spec_rpc spec_getinode demo_storage
     [(''datastore_id'', PStr ''id-pub-k1''), (''inode_uuid'', PStr ''1''),
      (''device_ids'', PStr ''laptop,phone'')] = (Inl (AttributeError ''split''), demo_storage)"
  using getinode_device_ids_raises
    [where args = "[(''datastore_id'', PStr ''id-pub-k1''), (''inode_uuid'', PStr ''1''),
                    (''device_ids'', PStr ''laptop,phone'')]"
       and v = "PStr ''laptop,phone''" and rpc = spec_rpc and s = demo_storage
       and datastore_getinode = spec_getinode]
  by (auto simp add: str_attr_def getattr_def flag_attr_def)


text \<open>
  C10. \<open>datastore_file_put\<close> never compares the type of the datastore with its
  \<^verbatim>\<open>datastore_type\<close> argument: its result does not depend on that argument. Where
  the types differ, \<open>datastore_file_get\<close>, \<open>datastore_dir_list\<close> and
  \<open>datastore_path_stat\<close> return the type-mismatch error, and \<open>datastore_file_put\<close>
  returns what \<^verbatim>\<open>datastore_putfile\<close> returns.
\<close>

theorem file_put_ignores_datastore_type:
  "datastore_file_put keys os rpc datastore_putfile s ty pk path data create force_data force devs
     = datastore_file_put keys os rpc datastore_putfile s ty' pk path data create force_data force devs \<and>
   (local_api_connect rpc s \<and>
    backend_datastore_get rpc s (datastore_get_id keys (get_pubkey_hex keys pk)) devs = (info, s1) \<and>
    \<not> has_key info ''error'' \<and> get_item info ''datastore'' = Inr handle \<and>
    subscript handle ''type'' = Inr (PStr actual) \<and> actual \<noteq> ty \<longrightarrow>
      datastore_file_put keys os rpc datastore_putfile s ty pk path data create True force devs
        = (case datastore_putfile s1 handle path data pk create of (res, s2) \<Rightarrow> (Inr res, s2)) \<and>
      datastore_file_get rpc datastore_getfile s ty (datastore_get_id keys (get_pubkey_hex keys pk))
          path extended force devs
        = (Inr [(''error'', PStr (is_a (datastore_get_id keys (get_pubkey_hex keys pk)) (PStr actual)))], s1) \<and>
      datastore_dir_list rpc datastore_listdir s ty (datastore_get_id keys (get_pubkey_hex keys pk))
          path extended force devs
        = (Inr [(''error'', PStr (is_a (datastore_get_id keys (get_pubkey_hex keys pk)) (PStr actual))),
                (''errno'', PInt EINVAL)], s1) \<and>
      datastore_path_stat rpc datastore_stat s ty (datastore_get_id keys (get_pubkey_hex keys pk))
          path extended force idata devs
        = (Inr [(''error'', PStr (is_a (datastore_get_id keys (get_pubkey_hex keys pk)) (PStr actual)))], s1))"
  by (simp add: datastore_file_put_def datastore_file_get_def datastore_dir_list_def
      datastore_path_stat_def Let_def)

theorem file_put_ignores_datastore_type_witness:
  "local_api_connect spec_rpc demo_storage \<and>
   backend_datastore_get spec_rpc demo_storage (datastore_get_id demo_keys (get_pubkey_hex demo_keys ''k2'')) None
     = ([(''status'', PBool True),
         (''datastore'', datastore_to_dict ''id-pub-k2''
            \<lparr>ds_type = ''collection'', ds_root = 2, ds_drivers = [''disk'']\<rparr>)], demo_storage) \<and>
   \<not> has_key [(''status'', PBool True),
         (''datastore'', datastore_to_dict ''id-pub-k2''
            \<lparr>ds_type = ''collection'', ds_root = 2, ds_drivers = [''disk'']\<rparr>)] ''error'' \<and>
   get_item [(''status'', PBool True),
         (''datastore'', datastore_to_dict ''id-pub-k2''
            \<lparr>ds_type = ''collection'', ds_root = 2, ds_drivers = [''disk'']\<rparr>)] ''datastore''
     = Inr (datastore_to_dict ''id-pub-k2'' \<lparr>ds_type = ''collection'', ds_root = 2, ds_drivers = [''disk'']\<rparr>) \<and>
   subscript (datastore_to_dict ''id-pub-k2'' \<lparr>ds_type = ''collection'', ds_root = 2, ds_drivers = [''disk'']\<rparr>)
     ''type'' = Inr (PStr ''collection'') \<and>
   ''collection'' \<noteq> ''datastore'' \<and>
   datastore_file_put demo_keys spec_os spec_rpc spec_putfile demo_storage ''datastore'' ''k2'' ''/item''
       (PStr ''hello'') False True False None
     = datastore_file_put demo_keys spec_os spec_rpc spec_putfile demo_storage ''collection'' ''k2'' ''/item''
       (PStr ''hello'') False True False None \<and>
   fst (datastore_file_put demo_keys spec_os spec_rpc spec_putfile demo_storage ''datastore'' ''k2'' ''/item''
       (PStr ''hello'') False True False None) = Inr [(''status'', PBool True)] \<and>
   datastore_file_get spec_rpc spec_getfile demo_storage ''datastore'' ''id-pub-k2'' ''/item'' False False None
     = (Inr [(''error'', PStr ''id-pub-k2 is a collection'')], demo_storage) \<and>
   datastore_dir_list spec_rpc spec_listdir demo_storage ''datastore'' ''id-pub-k2'' ''/'' False False None
     = (Inr [(''error'', PStr ''id-pub-k2 is a collection''), (''errno'', PInt 22)], demo_storage) \<and>
   datastore_path_stat spec_rpc spec_stat demo_storage ''datastore'' ''id-pub-k2'' ''/item'' False False False None
     = (Inr [(''error'', PStr ''id-pub-k2 is a collection'')], demo_storage)"
  using file_put_ignores_datastore_type
    [where keys = demo_keys and os = spec_os and rpc = spec_rpc and datastore_putfile = spec_putfile
       and s = demo_storage and ty = "''datastore''" and ty' = "''collection''" and pk = "''k2''"
       and path = "''/item''" and data = "PStr ''hello''" and create = False and force_data = True
       and force = False and devs = None]
  by code_simp

text \<open>
  C3. Passing \<^verbatim>\<open>force\<close> through the putfile entry points suppresses the
  rejection of a stale parent. In the code the flag never reaches the write:
  \<open>datastore_file_put\<close> returns the same result for \<^verbatim>\<open>force=True\<close> and
  \<^verbatim>\<open>force=False\<close>, and \<open>cli_datastore_putfile\<close> returns the same result whatever
  the \<^verbatim>\<open>force\<close> attribute of the namespace is. On a stale root directory the
  entry point answers \<^verbatim>\<open>EPERM\<close> with \<^verbatim>\<open>force\<close> set, where the forced write
  itself succeeds.
\<close>

theorem putfile_force_not_forwarded:
  "datastore_file_put keys os rpc datastore_putfile s ty pk path data create force_data True devs
     = datastore_file_put keys os rpc datastore_putfile s ty pk path data create force_data False devs \<and>
   cli_datastore_putfile keys os rpc datastore_putfile s (AList.update ''force'' v args) force_data
     = cli_datastore_putfile keys os rpc datastore_putfile s (AList.delete ''force'' args) force_data"
  by (simp add: datastore_file_put_def cli_datastore_putfile_def Let_def str_attr_def getattr_def
      str_flag_def csv_attr_def update_conv' delete_conv')

theorem putfile_force_not_forwarded_witness:
  "cli_datastore_putfile demo_keys spec_os spec_rpc spec_putfile stale_storage
      (AList.update ''force'' (PStr ''true'')
         [(''privkey'', PStr ''k1''), (''path'', PStr ''/file1''), (''data'', PStr ''hello'')]) False
     = cli_datastore_putfile demo_keys spec_os spec_rpc spec_putfile stale_storage
         (AList.delete ''force''
            [(''privkey'', PStr ''k1''), (''path'', PStr ''/file1''), (''data'', PStr ''hello'')]) False \<and>
   cli_datastore_putfile demo_keys spec_os spec_rpc spec_putfile stale_storage
      [(''privkey'', PStr ''k1''), (''path'', PStr ''/file1''), (''data'', PStr ''hello''),
       (''force'', PStr ''true'')] False
     = (Inr [(''error'', PStr ''StaleData''), (''errno'', PInt EPERM)], stale_storage) \<and>
   fst (putfile stale_storage \<lparr>ds_type = ''datastore'', ds_root = 1, ds_drivers = [''disk'']\<rparr> True
          ''/file1'' ''hello'' False) = Inr (3, 1)"
  using putfile_force_not_forwarded
    [where keys = demo_keys and os = spec_os and rpc = spec_rpc and datastore_putfile = spec_putfile
       and s = stale_storage and force_data = False and v = "PStr ''true''"
       and args = "[(''privkey'', PStr ''k1''), (''path'', PStr ''/file1''), (''data'', PStr ''hello'')]"]
  by code_simp

text \<open>
  C5. \<open>create_datastore_by_type\<close> returns the new datastore id on success, and
  \<^verbatim>\<open>EEXIST\<close> without writing when the datastore exists. The first half fails: a
  successful call returns \<^verbatim>\<open>{'status': True}\<close>, which holds no datastore id.
\<close>

theorem create_datastore_returns_status_counterexample:
  "fst (create_datastore_by_type demo_keys spec_rpc (spec_make_datastore_info demo_keys) spec_put_datastore
          demo_storage ''datastore'' ''k3'' (Some [''disk''])) = Inr [(''status'', PBool True)] \<and>
   map_of (datastores (snd (create_datastore_by_type demo_keys spec_rpc (spec_make_datastore_info demo_keys)
          spec_put_datastore demo_storage ''datastore'' ''k3'' (Some [''disk''])))) ''id-pub-k3''
     = Some \<lparr>ds_type = ''datastore'', ds_root = 3, ds_drivers = [''disk'']\<rparr> \<and>
   datastore_get_id demo_keys (get_pubkey_hex demo_keys ''k3'') = ''id-pub-k3'' \<and>
   PStr ''id-pub-k3'' \<notin> snd ` set [(''status'', PBool True)]"
  by code_simp

text \<open>
  C5, as amended. A successful \<open>create_datastore_by_type\<close> returns exactly
  \<^verbatim>\<open>{'status': True}\<close>; when the lookup of the id derived from the key finds a
  datastore, it returns an error with errno \<^verbatim>\<open>EEXIST\<close> in the state the lookup
  left: \<^verbatim>\<open>put_datastore\<close> has not run.
\<close>

theorem create_datastore_result:
  "(create_datastore_by_type keys rpc make_datastore_info put_datastore s ty pk drivers = (Inr res, s') \<and>
    \<not> has_key res ''error'' \<longrightarrow> res = [(''status'', PBool True)]) \<and>
   (local_api_connect rpc s \<and>
    backend_datastore_get rpc s (datastore_get_id keys (get_pubkey_hex keys pk)) None = (found, s1) \<and>
    \<not> has_key found ''error'' \<longrightarrow>
      create_datastore_by_type keys rpc make_datastore_info put_datastore s ty pk drivers
        = (Inr [(''error'', PStr ''Datastore exists''), (''errno'', PInt EEXIST)], s1))"
  by (auto simp add: create_datastore_by_type_def Let_def api_not_running_def has_key_def
      split: if_splits prod.splits)

theorem create_datastore_result_witness:
  "create_datastore_by_type demo_keys spec_rpc (spec_make_datastore_info demo_keys) spec_put_datastore
      demo_storage ''datastore'' ''k3'' (Some [''disk''])
     = (Inr [(''status'', PBool True)],
        snd (create_datastore_by_type demo_keys spec_rpc (spec_make_datastore_info demo_keys)
               spec_put_datastore demo_storage ''datastore'' ''k3'' (Some [''disk'']))) \<and>
   \<not> has_key [(''status'', PBool True)] ''error'' \<and>
   local_api_connect spec_rpc demo_storage \<and>
   backend_datastore_get spec_rpc demo_storage (datastore_get_id demo_keys (get_pubkey_hex demo_keys ''k1'')) None
     = ([(''status'', PBool True),
         (''datastore'', datastore_to_dict ''id-pub-k1''
            \<lparr>ds_type = ''datastore'', ds_root = 1, ds_drivers = [''disk'']\<rparr>)], demo_storage) \<and>
   \<not> has_key [(''status'', PBool True),
         (''datastore'', datastore_to_dict ''id-pub-k1''
            \<lparr>ds_type = ''datastore'', ds_root = 1, ds_drivers = [''disk'']\<rparr>)] ''error'' \<and>
   create_datastore_by_type demo_keys spec_rpc (spec_make_datastore_info demo_keys) spec_put_datastore
      demo_storage ''datastore'' ''k1'' (Some [''disk''])
     = (Inr [(''error'', PStr ''Datastore exists''), (''errno'', PInt 17)], demo_storage)"
  using create_datastore_result
    [where keys = demo_keys and rpc = spec_rpc and make_datastore_info = "spec_make_datastore_info demo_keys"
       and put_datastore = spec_put_datastore and s = demo_storage and ty = "''datastore''"
       and pk = "''k1''" and drivers = "Some [''disk'']"]
  by code_simp

text \<open>
  C6. When the \<^verbatim>\<open>rmtree\<close> inside \<open>delete_datastore_by_type\<close> fails, then without
  \<^verbatim>\<open>force\<close> the call returns errno \<^verbatim>\<open>ENOTEMPTY\<close> in the state
  \<^verbatim>\<open>rmtree\<close> left, \<^verbatim>\<open>delete_datastore\<close> not having run; with \<^verbatim>\<open>force\<close>
  it runs \<^verbatim>\<open>delete_datastore\<close> on that state and returns its outcome.
\<close>

theorem delete_datastore_rmtree_failure:
  assumes "local_api_connect rpc s"
    and "backend_datastore_get rpc s (datastore_get_id keys (get_pubkey_hex keys pk)) None = (info, sa)"
    and "\<not> has_key info ''error''"
    and "get_item info ''datastore'' = Inr handle"
    and "subscript handle ''type'' = Inr (PStr ty)"
    and "datastore_rmtree sa handle ''/'' pk = (failure, sb)"
    and "has_key failure ''error''"
  shows "delete_datastore_by_type keys rpc datastore_rmtree delete_datastore s ty pk False
           = (Inr [(''error'', PStr ''Failed to remove all files and directories''),
                   (''errno'', PInt ENOTEMPTY)], sb) \<and>
         delete_datastore_by_type keys rpc datastore_rmtree delete_datastore s ty pk True
           = (case delete_datastore sb handle pk of
                (res, sc) \<Rightarrow> (Inr (if has_key res ''error'' then res else [(''status'', PBool True)]), sc))"
  using assms
  by (simp add: delete_datastore_by_type_def Let_def call_check_remove_datastore remove_datastore_def
      has_key_def split: prod.splits)

theorem delete_datastore_rmtree_failure_witness:
  "local_api_connect spec_rpc demo_storage \<and>
   backend_datastore_get spec_rpc demo_storage (datastore_get_id demo_keys (get_pubkey_hex demo_keys ''k1'')) None
     = ([(''status'', PBool True),
         (''datastore'', datastore_to_dict ''id-pub-k1''
            \<lparr>ds_type = ''datastore'', ds_root = 1, ds_drivers = [''disk'']\<rparr>)], demo_storage) \<and>
   \<not> has_key [(''status'', PBool True),
         (''datastore'', datastore_to_dict ''id-pub-k1''
            \<lparr>ds_type = ''datastore'', ds_root = 1, ds_drivers = [''disk'']\<rparr>)] ''error'' \<and>
   get_item [(''status'', PBool True),
         (''datastore'', datastore_to_dict ''id-pub-k1''
            \<lparr>ds_type = ''datastore'', ds_root = 1, ds_drivers = [''disk'']\<rparr>)] ''datastore''
     = Inr (datastore_to_dict ''id-pub-k1'' \<lparr>ds_type = ''datastore'', ds_root = 1, ds_drivers = [''disk'']\<rparr>) \<and>
   subscript (datastore_to_dict ''id-pub-k1'' \<lparr>ds_type = ''datastore'', ds_root = 1, ds_drivers = [''disk'']\<rparr>)
     ''type'' = Inr (PStr ''datastore'') \<and>
   failing_rmtree demo_storage
       (datastore_to_dict ''id-pub-k1'' \<lparr>ds_type = ''datastore'', ds_root = 1, ds_drivers = [''disk'']\<rparr>)
       ''/'' ''k1'' = (error_response StaleData, demo_storage) \<and>
   has_key (error_response StaleData) ''error'' \<and>
   delete_datastore_by_type demo_keys spec_rpc failing_rmtree spec_delete_datastore demo_storage
       ''datastore'' ''k1'' False
     = (Inr [(''error'', PStr ''Failed to remove all files and directories''), (''errno'', PInt 39)],
        demo_storage) \<and>
   map_of (datastores demo_storage) ''id-pub-k1''
     = Some \<lparr>ds_type = ''datastore'', ds_root = 1, ds_drivers = [''disk'']\<rparr> \<and>
   fst (delete_datastore_by_type demo_keys spec_rpc failing_rmtree spec_delete_datastore demo_storage
       ''datastore'' ''k1'' True) = Inr [(''status'', PBool True)] \<and>
   map_of (datastores (snd (delete_datastore_by_type demo_keys spec_rpc failing_rmtree spec_delete_datastore
       demo_storage ''datastore'' ''k1'' True))) ''id-pub-k1'' = None"
  using delete_datastore_rmtree_failure
    [where keys = demo_keys and rpc = spec_rpc and datastore_rmtree = failing_rmtree
       and delete_datastore = spec_delete_datastore and s = demo_storage and ty = "''datastore''"
       and pk = "''k1''" and sa = demo_storage and sb = demo_storage
       and failure = "error_response StaleData"
       and handle = "datastore_to_dict ''id-pub-k1'' \<lparr>ds_type = ''datastore'', ds_root = 1, ds_drivers = [''disk'']\<rparr>"
       and info = "[(''status'', PBool True),
         (''datastore'', datastore_to_dict ''id-pub-k1''
            \<lparr>ds_type = ''datastore'', ds_root = 1, ds_drivers = [''disk'']\<rparr>)]"]
  by code_simp





text \<open>
  C2. A successful putfile of \<open>B\<close> at \<open>P\<close> followed by getfile of \<open>P\<close> returns
  exactly \<open>B\<close>, also when \<open>B\<close> is the pathname of an existing local file and
  \<^verbatim>\<open>force_data\<close> is not set. It does not: \<open>datastore_file_put\<close> then stores the
  contents of that file. Here \<^verbatim>\<open>/etc/hostname\<close> is put and \<^verbatim>\<open>box\<close> is read back.
\<close>

theorem putfile_getfile_round_trip_counterexample:
  "is_valid_path (PStr ''/etc/hostname'') \<and>
   os_path_exists spec_os demo_storage ''/etc/hostname'' \<and>
   read_file spec_os demo_storage ''/etc/hostname'' = Some ''box'' \<and>
   fst (datastore_file_put demo_keys spec_os spec_rpc spec_putfile demo_storage ''datastore'' ''k1''
          ''/file2'' (PStr ''/etc/hostname'') False False False None) = Inr [(''status'', PBool True)] \<and>
   fst (datastore_file_get spec_rpc spec_getfile
          (snd (datastore_file_put demo_keys spec_os spec_rpc spec_putfile demo_storage ''datastore'' ''k1''
                  ''/file2'' (PStr ''/etc/hostname'') False False False None))
          ''datastore'' ''id-pub-k1'' ''/file2'' False False None)
     = Inr [(''status'', PBool True),
            (''file'', PDict [(''uuid'', PInt 3), (''type'', PStr ''file''), (''version'', PInt 1),
                              (''device_id'', PStr ''laptop''), (''idata'', PStr ''box'')])] \<and>
   PStr ''box'' \<noteq> PStr ''/etc/hostname''"
  by code_simp

text \<open>
  C2, as amended. After a successful \<open>datastore_file_put\<close> of \<open>data\<close> at \<open>path\<close>,
  \<open>datastore_file_get\<close> of \<open>path\<close> returns the stored bytes, with or without
  \<^verbatim>\<open>force\<close>: they are \<open>data\<close> itself when \<^verbatim>\<open>force_data\<close> is set or \<open>data\<close>
  is not a valid pathname of an existing local file, and the contents of that file
  otherwise.
\<close>

theorem putfile_getfile_round_trip:
  assumes put: "datastore_file_put keys spec_os spec_rpc spec_putfile st ty pk path data create
                  force_data force devs = (Inr res, st')"
    and ok: "\<not> has_key res ''error''"
  shows "\<exists>ds file bytes.
           map_of (datastores st') (datastore_get_id keys (get_pubkey_hex keys pk)) = Some ds \<and>
           datastore_file_get spec_rpc spec_getfile st' (ds_type ds)
               (datastore_get_id keys (get_pubkey_hex keys pk)) path extended force' devs'
             = (Inr [(''status'', PBool True), (''file'', PDict file)], st') \<and>
           map_of file ''idata'' = Some (PStr bytes) \<and>
           (if is_valid_path data \<and> os_path_exists spec_os st (pystr data) \<and> \<not> force_data
            then read_file spec_os st (pystr data) = Some bytes
            else data = PStr bytes)"
proof -
  let ?i = "datastore_get_id keys (get_pubkey_hex keys pk)"
  from file_put_success[OF put ok] obtain ds bytes u v where
    run: "api_running st" and ds: "map_of (datastores st) ?i = Some ds"
    and p: "putfile st ds False path bytes create = (Inr (u, v), st')"
    and stored: "if is_valid_path data \<and> os_path_exists spec_os st (pystr data) \<and> \<not> force_data
            then read_file spec_os st (pystr data) = Some bytes else data = PStr bytes"
    by blast
  from put_resolves(1)[OF p, of force'] obtain ino where
    r: "resolve st' ds force' path = Inr (u, ino)" and pl: "inode_payload ino = FilePayload bytes"
    by blast
  from put_resolves(3)[OF p] run ds have run': "api_running st'" and ds': "map_of (datastores st') ?i = Some ds"
    by simp_all
  have "datastore_file_get spec_rpc spec_getfile st' (ds_type ds) ?i path extended force' devs'
          = (Inr [(''status'', PBool True), (''file'', PDict (inode_to_dict u ino True))], st')"
    using run' ds' r pl by (simp add: file_get_spec getfile_def)
  moreover have "map_of (inode_to_dict u ino True) ''idata'' = Some (PStr bytes)"
    using pl by (simp add: inode_to_dict_idata)
  ultimately show ?thesis using ds' stored by blast
qed

theorem putfile_getfile_round_trip_witness:
  "datastore_file_put demo_keys spec_os spec_rpc spec_putfile demo_storage ''datastore'' ''k1''
       ''/file1'' (PStr ''hello'') False False False None
     = (Inr [(''status'', PBool True)], file_storage) \<and>
   \<not> has_key [(''status'', PBool True)] ''error'' \<and>
   \<not> os_path_exists spec_os demo_storage ''hello'' \<and>
   datastore_file_get spec_rpc spec_getfile file_storage ''datastore'' ''id-pub-k1'' ''/file1'' False False None
     = (Inr [(''status'', PBool True),
             (''file'', PDict [(''uuid'', PInt 3), (''type'', PStr ''file''), (''version'', PInt 1),
                               (''device_id'', PStr ''laptop''), (''idata'', PStr ''hello'')])],
        file_storage)"
  using putfile_getfile_round_trip
    [where keys = demo_keys and st = demo_storage and ty = "''datastore''" and pk = "''k1''"
       and path = "''/file1''" and data = "PStr ''hello''" and create = False and force_data = False
       and force = False and devs = None and res = "[(''status'', PBool True)]" and st' = file_storage
       and extended = False and force' = False and devs' = None]
  by (elim thin_rl) code_simp

text \<open>
  C4. For a path that resolves to a file, after a successful deletefile every getfile
  of the path without \<^verbatim>\<open>force\<close> fails with \<^verbatim>\<open>NotFound/ENOENT\<close>, whatever the
  drivers serve for the inode of the file afterwards: \<open>es\<close> is any content of the
  drivers that differs from the one deletefile left at most at that inode. The state is
  the same after the failed getfile, so that every later one fails alike.
\<close>

theorem deletefile_then_getfile_enoent:
  assumes pre: "cli_datastore_getfile spec_rpc spec_getfile st
                  [(''datastore_id'', PStr (datastore_get_id keys (get_pubkey_hex keys pk))),
                   (''path'', PStr path)]
                = (Inr [(''status'', PBool True), (''file'', PDict file)], st)"
    and uuid: "map_of file ''uuid'' = Some (PInt (int u))"
    and path: "str_attr args ''path'' = Inr path"
    and pk: "str_attr args ''privkey'' = Inr pk"
    and del: "cli_datastore_deletefile keys spec_rpc spec_deletefile st args = (Inr res, st')"
    and ok: "\<not> has_key res ''error''"
    and served: "\<forall>w. w \<noteq> u \<longrightarrow> map_of es w = map_of (envelopes st') w"
  shows "cli_datastore_getfile spec_rpc spec_getfile (st'\<lparr>envelopes := es\<rparr>)
           [(''datastore_id'', PStr (datastore_get_id keys (get_pubkey_hex keys pk))),
            (''path'', PStr path)]
         = (Inr [(''error'', PStr ''NotFound''), (''errno'', PInt ENOENT)], st'\<lparr>envelopes := es\<rparr>)"
proof -
  let ?i = "datastore_get_id keys (get_pubkey_hex keys pk)"
  from file_get_success[OF pre[unfolded cli_getfile_plain]] obtain ds u' ino where
    run: "api_running st" and ds: "map_of (datastores st) ?i = Some ds"
    and ty: "ds_type ds = ''datastore''" and g: "getfile st ds False path = Inr (u', ino)"
    and fl: "file = inode_to_dict u' ino True" by blast
  from uuid fl have u: "u' = u" by (simp add: inode_to_dict_uuid)
  from getfile_file[OF g] u obtain b where
    r: "resolve st ds False path = Inr (u, ino)" and isfile: "inode_payload ino = FilePayload b" by blast
  from cli_deletefile_success[OF del ok path pk] ds obtain d where
    d: "deletefile st ds (str_flag args ''force'' [''1'', ''true'']) path = (Inr d, st')" by auto
  have nf: "resolve (st'\<lparr>envelopes := es\<rparr>) ds False path = Inl NotFound"
    by (rule delete_then_resolve[OF r isfile d]) (use served in blast)
  from deletefile_frame[OF d] run ds ty nf show ?thesis
    by (simp add: cli_getfile_plain file_get_spec getfile_def error_response_def)
qed

theorem deletefile_then_getfile_enoent_witness:
  "cli_datastore_getfile spec_rpc spec_getfile file_storage
       [(''datastore_id'', PStr (datastore_get_id demo_keys (get_pubkey_hex demo_keys ''k1''))),
        (''path'', PStr ''/file1'')]
     = (Inr [(''status'', PBool True),
             (''file'', PDict [(''uuid'', PInt 3), (''type'', PStr ''file''), (''version'', PInt 1),
                               (''device_id'', PStr ''laptop''), (''idata'', PStr ''hello'')])],
        file_storage) \<and>
   map_of [(''uuid'', PInt 3), (''type'', PStr ''file''), (''version'', PInt 1),
           (''device_id'', PStr ''laptop''), (''idata'', PStr ''hello'')] ''uuid'' = Some (PInt (int 3)) \<and>
   str_attr [(''privkey'', PStr ''k1''), (''path'', PStr ''/file1'')] ''path'' = Inr ''/file1'' \<and>
   str_attr [(''privkey'', PStr ''k1''), (''path'', PStr ''/file1'')] ''privkey'' = Inr ''k1'' \<and>
   fst (cli_datastore_deletefile demo_keys spec_rpc spec_deletefile file_storage
          [(''privkey'', PStr ''k1''), (''path'', PStr ''/file1'')]) = Inr [(''status'', PBool True)] \<and>
   \<not> has_key [(''status'', PBool True)] ''error'' \<and>
   map_of (envelopes (snd (cli_datastore_deletefile demo_keys spec_rpc spec_deletefile file_storage
          [(''privkey'', PStr ''k1''), (''path'', PStr ''/file1'')]))) 3
     = Some \<lparr>inode_version = 1, inode_device = ''laptop'', inode_parent = Some 1,
              inode_payload = FilePayload ''hello''\<rparr> \<and>
   tombstones (snd (cli_datastore_deletefile demo_keys spec_rpc spec_deletefile file_storage
          [(''privkey'', PStr ''k1''), (''path'', PStr ''/file1'')])) = [(3, ''laptop''), (3, ''phone'')] \<and>
   fst (cli_datastore_getfile spec_rpc spec_getfile
          (snd (cli_datastore_deletefile demo_keys spec_rpc spec_deletefile file_storage
                  [(''privkey'', PStr ''k1''), (''path'', PStr ''/file1'')]))
          [(''datastore_id'', PStr (datastore_get_id demo_keys (get_pubkey_hex demo_keys ''k1''))),
           (''path'', PStr ''/file1'')])
     = Inr [(''error'', PStr ''NotFound''), (''errno'', PInt 2)]"
proof -
  let ?del = "cli_datastore_deletefile demo_keys spec_rpc spec_deletefile file_storage
          [(''privkey'', PStr ''k1''), (''path'', PStr ''/file1'')]"
  let ?gargs = "[(''datastore_id'', PStr (datastore_get_id demo_keys (get_pubkey_hex demo_keys ''k1''))),
        (''path'', PStr ''/file1'')]"
  have pre: "cli_datastore_getfile spec_rpc spec_getfile file_storage ?gargs
     = (Inr [(''status'', PBool True),
             (''file'', PDict [(''uuid'', PInt 3), (''type'', PStr ''file''), (''version'', PInt 1),
                               (''device_id'', PStr ''laptop''), (''idata'', PStr ''hello'')])],
        file_storage)"
    by code_simp
  have uuid: "map_of [(''uuid'', PInt 3), (''type'', PStr ''file''), (''version'', PInt 1),
           (''device_id'', PStr ''laptop''), (''idata'', PStr ''hello'')] ''uuid'' = Some (PInt (int 3))"
    by simp
  have path: "str_attr [(''privkey'', PStr ''k1''), (''path'', PStr ''/file1'')] ''path'' = Inr ''/file1''"
    and pk: "str_attr [(''privkey'', PStr ''k1''), (''path'', PStr ''/file1'')] ''privkey'' = Inr ''k1''"
    by (simp_all add: str_attr_def getattr_def)
  have del1: "fst ?del = Inr [(''status'', PBool True)]" by code_simp
  then have del: "?del = (Inr [(''status'', PBool True)], snd ?del)" by (simp add: prod_eq_iff)
  have ok: "\<not> has_key [(''status'', PBool True)] ''error''" by (simp add: has_key_def)
  have served: "map_of (envelopes (snd ?del)) 3
     = Some \<lparr>inode_version = 1, inode_device = ''laptop'', inode_parent = Some 1,
              inode_payload = FilePayload ''hello''\<rparr>"
    and tombs: "tombstones (snd ?del) = [(3, ''laptop''), (3, ''phone'')]"
    by code_simp+
  have "cli_datastore_getfile spec_rpc spec_getfile (snd ?del\<lparr>envelopes := envelopes (snd ?del)\<rparr>) ?gargs
         = (Inr [(''error'', PStr ''NotFound''), (''errno'', PInt ENOENT)],
            snd ?del\<lparr>envelopes := envelopes (snd ?del)\<rparr>)"
    by (rule deletefile_then_getfile_enoent[OF pre uuid path pk del ok]) simp
  then have "fst (cli_datastore_getfile spec_rpc spec_getfile (snd ?del) ?gargs)
     = Inr [(''error'', PStr ''NotFound''), (''errno'', PInt 2)]"
    by (simp add: ENOENT_def)
  with pre uuid path pk del1 ok served tombs show ?thesis by simp
qed




end
